theory Spec2Isabelle
  imports Main "HOL-Library.Word"
begin

unbundle bit_operations_syntax

section \<open>The web browser applet: data model\<close>

text \<open>
  The embedding follows \<^verbatim>\<open>src/core/hle/service/am/applets/web_browser.cpp\<close>.
  The header that declares the applet's structs and enumerations is not among the
  sources, so the model keeps from each type exactly what the code uses of it.
\<close>

type_synonym u8 = "8 word"
type_synonym u16 = "16 word"
type_synonym u32 = "32 word"
type_synonym u64 = "64 word"

text \<open>
  \<^verbatim>\<open>ShimKind\<close>: the seven enumerators the two \<^verbatim>\<open>switch\<close> statements name.
  The field is filled by \<^verbatim>\<open>memcpy\<close> from guest bytes, so it can hold any other value
  of the underlying integer type as well: \<open>InvalidShimKind v\<close> stands for such a value
  \<open>v\<close>, the one the \<^verbatim>\<open>default\<close> branches see.
\<close>

datatype ShimKind = Shop | Login | Offline | Share | Web | Wifi | Lobby | InvalidShimKind nat

text \<open>
  \<^verbatim>\<open>WebArgInputTLVType\<close>: the four tags the code looks up; \<open>OtherTLVType v\<close> is any
  other tag value.
\<close>

datatype WebArgInputTLVType =
  DocumentPath | DocumentKind | ApplicationID | SystemDataID | OtherTLVType nat

text \<open>
  Modelled from the spec: the field widths of the two structs (section 3: a 16-bit entry
  count in the header; a 32-bit tag and a 32-bit payload size in the sub-header). The
  struct declarations themselves are missing; only the fields
  \<^verbatim>\<open>total_tlv_entries\<close>, \<^verbatim>\<open>shim_kind\<close>, \<^verbatim>\<open>input_tlv_type\<close> and
  \<^verbatim>\<open>arg_data_size\<close> are used by the code.
\<close>

record WebArgHeader =
  total_tlv_entries :: u16
  shim_kind :: ShimKind

record WebArgInputTLV =
  input_tlv_type :: WebArgInputTLVType
  arg_data_size :: u32

text \<open>
  The byte layout of the two structs is a parameter: their sizes, and the
  reinterpretation (\<^verbatim>\<open>memcpy\<close> into the struct) of exactly that many bytes.
\<close>

record layout =
  sizeof_WebArgHeader :: nat
  sizeof_WebArgInputTLV :: nat
  as_WebArgHeader :: "u8 list \<Rightarrow> WebArgHeader"
  as_WebArgInputTLV :: "u8 list \<Rightarrow> WebArgInputTLV"

type_synonym WebArgInputTLVMap = "WebArgInputTLVType \<rightharpoonup> u8 list"

text \<open>
  What the C++ leaves undefined, throws or aborts on is a value of the model: every
  operation returns either its result or the fault that ended it.
\<close>

datatype fault =
  OutOfBoundsRead
  | OutOfBoundsWrite
  | IndeterminateValue
  | OutOfBoundsIndex
  | BadOptionalAccess
  | NullDereference
  | AssertTerminated

section \<open>Argument buffer decoder\<close>

text \<open>\<^verbatim>\<open>u64 current_offset\<close>: additions wrap at 64 bits.\<close>

definition u64_add :: "nat \<Rightarrow> nat \<Rightarrow> nat" where
  "u64_add a b = (a + b) mod 2 ^ 64"

text \<open>
  \<^verbatim>\<open>std::memcpy(dst, src.data() + off, n)\<close>: the \<open>n\<close> bytes at offset \<open>off\<close>; reading
  past the end of the vector is a fault.
\<close>

definition memcpy_from :: "u8 list \<Rightarrow> nat \<Rightarrow> nat \<Rightarrow> fault + u8 list" where
  "memcpy_from src off n =
     (if off + n \<le> length src then Inr (take n (drop off src)) else Inl OutOfBoundsRead)"

text \<open>
  The \<^verbatim>\<open>for\<close> loop of \<^verbatim>\<open>ReadWebArgs\<close>: \<open>entries\<close> is
  \<^verbatim>\<open>web_arg_header.total_tlv_entries\<close>, \<open>i\<close> the loop counter, \<open>current_offset\<close> and
  \<open>input_tlv_map\<close> the two locals the loop updates.
\<close>

function ReadWebArgs_loop ::
  "layout \<Rightarrow> u8 list \<Rightarrow> nat \<Rightarrow> nat \<Rightarrow> nat \<Rightarrow> WebArgInputTLVMap \<Rightarrow> fault + WebArgInputTLVMap"
where
  "ReadWebArgs_loop L web_arg entries i current_offset input_tlv_map =
     (if i < entries then
        if length web_arg < u64_add current_offset (sizeof_WebArgInputTLV L) then
          Inr input_tlv_map
        else
          (case memcpy_from web_arg current_offset (sizeof_WebArgInputTLV L) of
             Inl e \<Rightarrow> Inl e
           | Inr raw \<Rightarrow>
               let input_tlv = as_WebArgInputTLV L raw;
                   current_offset1 = u64_add current_offset (sizeof_WebArgInputTLV L)
               in
                 if length web_arg < u64_add current_offset1 (unat (arg_data_size input_tlv)) then
                   Inr input_tlv_map
                 else
                   (case memcpy_from web_arg current_offset1 (unat (arg_data_size input_tlv)) of
                      Inl e \<Rightarrow> Inl e
                    | Inr data \<Rightarrow>
                        ReadWebArgs_loop L web_arg entries (i + 1)
                          (u64_add current_offset1 (unat (arg_data_size input_tlv)))
                          (input_tlv_map(input_tlv_type input_tlv \<mapsto> data))))
      else Inr input_tlv_map)"
  by pat_completeness auto
termination
  by (relation "measure (\<lambda>(L, web_arg, entries, i, current_offset, input_tlv_map). entries - i)") auto

declare ReadWebArgs_loop.simps [simp del]

definition ReadWebArgs :: "layout \<Rightarrow> u8 list \<Rightarrow> fault + (WebArgHeader \<times> WebArgInputTLVMap)" where
  "ReadWebArgs L web_arg =
     (case memcpy_from web_arg 0 (sizeof_WebArgHeader L) of
        Inl e \<Rightarrow> Inl e
      | Inr raw \<Rightarrow>
          let web_arg_header = as_WebArgHeader L raw in
            if length web_arg = sizeof_WebArgHeader L then Inr (web_arg_header, Map.empty)
            else
              (case ReadWebArgs_loop L web_arg (unat (total_tlv_entries web_arg_header)) 0
                      (sizeof_WebArgHeader L) Map.empty of
                 Inl e \<Rightarrow> Inl e
               | Inr input_tlv_map \<Rightarrow> Inr (web_arg_header, input_tlv_map)))"

subsection \<open>The decoder as the specification words it\<close>

text \<open>
  One \<^verbatim>\<open>TaggedEntry\<close> read off the front of the remaining bytes: \<open>None\<close> when the
  bytes do not hold the whole sub-header, or not the whole payload it declares.
\<close>

definition tagged_entry ::
  "layout \<Rightarrow> u8 list \<Rightarrow> ((WebArgInputTLVType \<times> u8 list) \<times> u8 list) option"
where
  "tagged_entry L bs =
     (if length bs < sizeof_WebArgInputTLV L then None
      else
        let sub = as_WebArgInputTLV L (take (sizeof_WebArgInputTLV L) bs);
            rest = drop (sizeof_WebArgInputTLV L) bs;
            n = unat (arg_data_size sub)
        in if length rest < n then None
           else Some ((input_tlv_type sub, take n rest), drop n rest))"

text \<open>
  The maximal prefix of at most \<open>n\<close> entries that the bytes hold in full: it ends only
  when \<open>n\<close> entries are read or the next entry is not whole.
\<close>

fun complete_entries :: "layout \<Rightarrow> nat \<Rightarrow> u8 list \<Rightarrow> (WebArgInputTLVType \<times> u8 list) list" where
  "complete_entries L 0 bs = []"
| "complete_entries L (Suc n) bs =
     (case tagged_entry L bs of
        None \<Rightarrow> []
      | Some (e, rest) \<Rightarrow> e # complete_entries L n rest)"

text \<open>The number of bytes that a sequence of entries occupies in the buffer.\<close>

fun entries_size :: "layout \<Rightarrow> (WebArgInputTLVType \<times> u8 list) list \<Rightarrow> nat" where
  "entries_size L [] = 0"
| "entries_size L ((t, d) # es) = sizeof_WebArgInputTLV L + length d + entries_size L es"

text \<open>\<^verbatim>\<open>insert_or_assign\<close> of the entries in order, onto a map.\<close>

fun assign_all ::
  "WebArgInputTLVMap \<Rightarrow> (WebArgInputTLVType \<times> u8 list) list \<Rightarrow> WebArgInputTLVMap"
where
  "assign_all m [] = m"
| "assign_all m ((t, d) # es) = assign_all (m(t \<mapsto> d)) es"

section \<open>Reading a field's bytes\<close>

text \<open>The value of a byte span read as a little-endian integer (the host's byte order).\<close>

definition le_nat :: "u8 list \<Rightarrow> nat" where
  "le_nat bs = foldr (\<lambda>b acc. unat b + 256 * acc) bs 0"

text \<open>
  \<^verbatim>\<open>ParseRawValue<T>\<close>: \<^verbatim>\<open>T value; std::memcpy(&value, data.data(), data.size())\<close>
  for a \<open>T\<close> of \<open>sizeof_T\<close> bytes. The copy takes the payload's length, not the value's:
  a longer payload writes past the local, a shorter one leaves bytes of it uninitialised.
\<close>

definition ParseRawValue :: "nat \<Rightarrow> u8 list \<Rightarrow> fault + nat" where
  "ParseRawValue sizeof_T data =
     (if length data = sizeof_T then Inr (le_nat data)
      else if sizeof_T < length data then Inl OutOfBoundsWrite
      else Inl IndeterminateValue)"

definition char_of_byte :: "u8 \<Rightarrow> char" where
  "char_of_byte b = char_of (unat b)"

text \<open>
  Modelled from the spec: \<^verbatim>\<open>Common::StringFromFixedZeroTerminatedBuffer\<close>, which
  \<^verbatim>\<open>ParseStringValue\<close> calls and which is not among the sources (section 4.1: the
  bytes up to the first zero byte or the end of the span, whichever is first).
\<close>

definition ParseStringValue :: "u8 list \<Rightarrow> string" where
  "ParseStringValue data = map char_of_byte (takeWhile (\<lambda>b. b \<noteq> 0) data)"

text \<open>\<^verbatim>\<open>std::string::find(c)\<close>: the first index of \<open>c\<close>; \<open>None\<close> is \<^verbatim>\<open>npos\<close>.\<close>

definition string_find :: "string \<Rightarrow> char \<Rightarrow> nat option" where
  "string_find s c = (if c \<in> set s then Some (length (takeWhile (\<lambda>x. x \<noteq> c) s)) else None)"

definition GetMainURL :: "string \<Rightarrow> string" where
  "GetMainURL url =
     (case string_find url (CHR ''?'') of
        None \<Rightarrow> url
      | Some index \<Rightarrow> take index url)"

text \<open>\<^verbatim>\<open>{:016X}\<close> of a 64-bit value: sixteen upper-case hexadecimal digits.\<close>

definition hex_digit :: "nat \<Rightarrow> char" where
  "hex_digit d = ''0123456789ABCDEF'' ! d"

definition format_016X :: "u64 \<Rightarrow> string" where
  "format_016X v =
     map (\<lambda>k. hex_digit (unat v div 16 ^ k mod 16))
       [15, 14, 13, 12, 11, 10, 9, 8, 7, 6, 5, 4, 3, 2, 1, 0]"

section \<open>The applet and the collaborators it calls\<close>

text \<open>
  \<^verbatim>\<open>DocumentKind\<close>: the three kinds of the \<^verbatim>\<open>switch\<close> in
  \<^verbatim>\<open>InitializeOffline\<close>; \<open>InvalidDocumentKind v\<close> is any other value \<open>v\<close> of the
  32-bit integer the code casts it to.
\<close>

datatype DocumentKind =
  OfflineHtmlPage | ApplicationLegalInformation | SystemDataPage | InvalidDocumentKind nat

text \<open>
  Modelled from the spec: the enumerator values of \<^verbatim>\<open>DocumentKind\<close>, whose declaration
  is missing. The code reads \<^verbatim>\<open>RESOURCE_TYPES[static_cast<u32>(document_kind) - 1]\<close> from
  a table of three names in the order of the three kinds, and section 8 has
  \<^verbatim>\<open>offline_web_applet_manual\<close> for an offline HTML page: the kinds are 1, 2 and 3.
\<close>

definition as_DocumentKind :: "nat \<Rightarrow> DocumentKind" where
  "as_DocumentKind v =
     (if v = 1 then OfflineHtmlPage
      else if v = 2 then ApplicationLegalInformation
      else if v = 3 then SystemDataPage
      else InvalidDocumentKind v)"

fun DocumentKind_value :: "DocumentKind \<Rightarrow> nat" where
  "DocumentKind_value OfflineHtmlPage = 1"
| "DocumentKind_value ApplicationLegalInformation = 2"
| "DocumentKind_value SystemDataPage = 3"
| "DocumentKind_value (InvalidDocumentKind v) = v"

definition RESOURCE_TYPES :: "string list" where
  "RESOURCE_TYPES = [''manual'', ''legal_information'', ''system_data'']"

text \<open>\<^verbatim>\<open>FileSys::ContentRecordType\<close>, as far as the applet assigns it.\<close>

datatype ContentRecordType = HtmlDocument | LegalInformation | Data

text \<open>
  \<^verbatim>\<open>WebExitReason\<close>: the code names one enumerator; the frontend's callback may pass
  any other.
\<close>

datatype WebExitReason = EndButtonPressed | OtherExitReason nat

text \<open>
  \<^verbatim>\<open>WebCommonReturnValue\<close> as \<^verbatim>\<open>WebBrowserExit\<close> fills it: \<open>last_url\<close> holds the
  bytes copied to the front of the fixed-size array. The output buffer is the
  \<^verbatim>\<open>memcpy\<close> image of this struct.
\<close>

record WebCommonReturnValue =
  exit_reason :: WebExitReason
  last_url :: string
  last_url_size :: nat

text \<open>
  Handles of the virtual file system: a \<^verbatim>\<open>VirtualFile\<close> or \<^verbatim>\<open>VirtualDir\<close> is a
  shared pointer, \<open>None\<close> when null; what it points to is the list of the relative paths
  of the files of the tree.
\<close>

type_synonym VirtualFile = "string list option"
type_synonym VirtualDir = "string list option"

record NCA =
  GetRomFS :: VirtualFile
  GetBaseIVFCOffset :: nat

datatype LogLevel = Debug | Info | Warning | Error | Critical

text \<open>What the applet does to the outside, in order: log lines and collaborator calls.\<close>

datatype event =
  Log LogLevel
  | AssertionFailed
  | Call_Applet_Initialize
  | Call_PopNormalDataToApplet
  | Call_Exists string
  | Call_SystemNAND_GetEntry u64 ContentRecordType
  | Call_ContentProvider_GetEntry u64 ContentRecordType
  | Call_SynthesizeSystemArchive u64
  | Call_PatchRomFS u64 ContentRecordType
  | Call_ExtractRomFS
  | Call_CreateDirectory string
  | Call_VfsRawCopyD string
  | Call_OpenLocalWebPage string
  | Call_PushNormalDataFromApplet WebCommonReturnValue
  | Call_SignalStateChanged

text \<open>
  The collaborators and constants that are declared outside the applet's source file, as
  parameters: the struct layout, the capacity of \<^verbatim>\<open>WebCommonReturnValue::last_url\<close>,
  whether the assertion macros of \<^verbatim>\<open>common/assert.h\<close> hand control back after they
  report, the title of the current process, the cache directory of the user, path
  sanitisation, the two content lookups, the built-in system archives, the patch manager
  and the virtual file system (whose two writing operations act on the set of paths
  that exist on host storage).
\<close>

record environment =
  struct_layout :: layout
  sizeof_last_url :: nat
  assert_returns :: bool
  GetTitleID :: u64
  CacheDir :: string
  SanitizePath :: "string \<Rightarrow> string"
  SystemNAND_GetEntry :: "u64 \<Rightarrow> ContentRecordType \<Rightarrow> NCA option"
  ContentProvider_GetEntry :: "u64 \<Rightarrow> ContentRecordType \<Rightarrow> NCA option"
  SynthesizeSystemArchive :: "u64 \<Rightarrow> VirtualFile"
  PatchRomFS :: "u64 \<Rightarrow> VirtualFile \<Rightarrow> nat \<Rightarrow> ContentRecordType \<Rightarrow> VirtualFile"
  ExtractRomFS :: "VirtualFile \<Rightarrow> VirtualDir"
  CreateDirectory :: "string list \<Rightarrow> string \<Rightarrow> string list"
  VfsRawCopyD :: "string list \<Rightarrow> VirtualDir \<Rightarrow> string \<Rightarrow> string list"

text \<open>
  The members of \<^verbatim>\<open>WebBrowser\<close> that the code reads or writes, and with them the
  world it acts on: the paths that exist on host storage and the trace of events so far.
  (\<^verbatim>\<open>web_applet_version\<close> is left out: it is only read by a condition whose body is
  empty. \<^verbatim>\<open>status\<close> is never written.)
\<close>

record WebBrowser =
  web_arg_header :: WebArgHeader
  web_arg_input_tlv_map :: WebArgInputTLVMap
  offline_cache_dir :: string
  offline_document :: string
  complete :: bool
  host_files :: "string list"
  trace :: "event list"

type_synonym outcome = "(fault \<times> WebBrowser) + WebBrowser"

definition emit :: "event \<Rightarrow> WebBrowser \<Rightarrow> WebBrowser" where
  "emit e s = s\<lparr>trace := trace s @ [e]\<rparr>"

text \<open>The applet as an operation left it, fault or not.\<close>

definition state_of :: "outcome \<Rightarrow> WebBrowser" where
  "state_of r = (case r of Inl (f, s) \<Rightarrow> s | Inr s \<Rightarrow> s)"

text \<open>\<^verbatim>\<open>Common::FS::Exists\<close>.\<close>

definition Exists :: "WebBrowser \<Rightarrow> string \<Rightarrow> bool" where
  "Exists s path = (path \<in> set (host_files s))"

text \<open>
  Modelled from the spec: the member initialisers of the class declaration, which is
  missing (section 3: an applet starts uninitialised and not complete).
\<close>

definition WebBrowser_new :: "string list \<Rightarrow> WebBrowser" where
  "WebBrowser_new files =
     \<lparr> web_arg_header = \<lparr> total_tlv_entries = 0, shim_kind = InvalidShimKind 0 \<rparr>,
       web_arg_input_tlv_map = Map.empty,
       offline_cache_dir = [],
       offline_document = [],
       complete = False,
       host_files = files,
       trace = [] \<rparr>"

definition TransactionComplete :: "WebBrowser \<Rightarrow> bool" where
  "TransactionComplete s = complete s"

definition GetInputTLVData :: "WebBrowser \<Rightarrow> WebArgInputTLVType \<Rightarrow> u8 list option" where
  "GetInputTLVData s tlv_type = web_arg_input_tlv_map s tlv_type"

text \<open>
  A failed \<^verbatim>\<open>ASSERT\<close> or a reached \<^verbatim>\<open>UNREACHABLE_MSG\<close>: the macro reports, and
  then either hands control back (the continuation \<open>k\<close> runs) or ends the process.
\<close>

definition assertion_failure :: "environment \<Rightarrow> WebBrowser \<Rightarrow> (WebBrowser \<Rightarrow> outcome) \<Rightarrow> outcome" where
  "assertion_failure E s k =
     (let s1 = emit AssertionFailed s
      in if assert_returns E then k s1 else Inl (AssertTerminated, s1))"

subsection \<open>Completion\<close>

text \<open>
  \<^verbatim>\<open>WebBrowserExit\<close>. The \<^verbatim>\<open>memcpy\<close> into \<^verbatim>\<open>last_url\<close> copies the whole URL
  whatever the array's capacity.
\<close>

definition WebBrowserExit :: "environment \<Rightarrow> WebExitReason \<Rightarrow> string \<Rightarrow> WebBrowser \<Rightarrow> outcome" where
  "WebBrowserExit E reason url s =
     (if sizeof_last_url E < length url then Inl (OutOfBoundsWrite, s)
      else
        let web_common_return_value =
              \<lparr> exit_reason = reason, last_url = url, last_url_size = length url \<rparr>;
            s1 = emit (Log Debug) s;
            s2 = s1\<lparr>complete := True\<rparr>;
            s3 = emit (Call_PushNormalDataFromApplet web_common_return_value) s2
        in Inr (emit Call_SignalStateChanged s3))"

subsection \<open>Offline mode: initialisation\<close>

text \<open>
  \<^verbatim>\<open>GetOfflineRomFS\<close>: the archive of a title, or a null handle. System data comes
  from the system NAND, with the built-in archives as the fallback; everything else from
  the content provider, patched.
\<close>

definition GetOfflineRomFS ::
  "environment \<Rightarrow> u64 \<Rightarrow> ContentRecordType \<Rightarrow> WebBrowser \<Rightarrow> VirtualFile \<times> WebBrowser"
where
  "GetOfflineRomFS E title_id nca_type s =
     (if nca_type = Data then
        let s1 = emit (Call_SystemNAND_GetEntry title_id nca_type) s in
          (case SystemNAND_GetEntry E title_id nca_type of
             None \<Rightarrow>
               (SynthesizeSystemArchive E title_id,
                emit (Call_SynthesizeSystemArchive title_id) (emit (Log Error) s1))
           | Some nca \<Rightarrow> (GetRomFS nca, s1))
      else
        let s1 = emit (Call_ContentProvider_GetEntry title_id nca_type) s in
          (case ContentProvider_GetEntry E title_id nca_type of
             None \<Rightarrow> (None, emit (Log Error) s1)
           | Some nca \<Rightarrow>
               (PatchRomFS E title_id (GetRomFS nca) (GetBaseIVFCOffset nca) nca_type,
                emit (Call_PatchRomFS title_id nca_type) s1)))"

text \<open>
  The first part of \<^verbatim>\<open>InitializeOffline\<close>, up to the end of the \<^verbatim>\<open>switch\<close>: the
  locals \<^verbatim>\<open>document_path\<close>, \<^verbatim>\<open>document_kind\<close>, \<^verbatim>\<open>title_id\<close>,
  \<^verbatim>\<open>nca_type\<close> and \<^verbatim>\<open>additional_paths\<close>. \<^verbatim>\<open>.value()\<close> on an empty optional
  throws \<^verbatim>\<open>std::bad_optional_access\<close>. A kind outside the three cases leaves the
  three last locals as they were initialised.
\<close>

record offline_locals =
  document_path :: string
  document_kind :: DocumentKind
  title_id :: u64
  nca_type :: ContentRecordType
  additional_paths :: string

definition InitializeOffline_locals :: "environment \<Rightarrow> WebBrowser \<Rightarrow> fault + offline_locals" where
  "InitializeOffline_locals E s =
     (case GetInputTLVData s DocumentPath of
        None \<Rightarrow> Inl BadOptionalAccess
      | Some path_data \<Rightarrow>
          (case GetInputTLVData s DocumentKind of
             None \<Rightarrow> Inl BadOptionalAccess
           | Some kind_data \<Rightarrow>
               (case ParseRawValue 4 kind_data of
                  Inl f \<Rightarrow> Inl f
                | Inr kind_value \<Rightarrow>
                    let path = ParseStringValue path_data;
                        kind = as_DocumentKind kind_value
                    in
                      (case kind of
                         OfflineHtmlPage \<Rightarrow>
                           Inr \<lparr> document_path = path, document_kind = kind,
                                 title_id = GetTitleID E, nca_type = HtmlDocument,
                                 additional_paths = ''html-document'' \<rparr>
                       | ApplicationLegalInformation \<Rightarrow>
                           (case GetInputTLVData s ApplicationID of
                              None \<Rightarrow> Inl BadOptionalAccess
                            | Some id_data \<Rightarrow>
                                (case ParseRawValue 8 id_data of
                                   Inl f \<Rightarrow> Inl f
                                 | Inr v \<Rightarrow>
                                     Inr \<lparr> document_path = path, document_kind = kind,
                                           title_id = of_nat v, nca_type = LegalInformation,
                                           additional_paths = [] \<rparr>))
                       | SystemDataPage \<Rightarrow>
                           (case GetInputTLVData s SystemDataID of
                              None \<Rightarrow> Inl BadOptionalAccess
                            | Some id_data \<Rightarrow>
                                (case ParseRawValue 8 id_data of
                                   Inl f \<Rightarrow> Inl f
                                 | Inr v \<Rightarrow>
                                     Inr \<lparr> document_path = path, document_kind = kind,
                                           title_id = of_nat v, nca_type = Data,
                                           additional_paths = [] \<rparr>))
                       | InvalidDocumentKind v \<Rightarrow>
                           Inr \<lparr> document_path = path, document_kind = kind,
                                 title_id = 0, nca_type = HtmlDocument,
                                 additional_paths = [] \<rparr>))))"

text \<open>
  The three paths. \<^verbatim>\<open>RESOURCE_TYPES[static_cast<u32>(document_kind) - 1]\<close>: the
  subtraction is on 32 bits.
\<close>

definition resource_index :: "DocumentKind \<Rightarrow> nat" where
  "resource_index kind = unat ((of_nat (DocumentKind_value kind) :: u32) - 1)"

definition cache_dir_path :: "environment \<Rightarrow> offline_locals \<Rightarrow> string" where
  "cache_dir_path E l =
     SanitizePath E
       (CacheDir E @ ''/offline_web_applet_'' @ RESOURCE_TYPES ! resource_index (document_kind l)
          @ ''/'' @ format_016X (title_id l))"

definition document_file_path :: "environment \<Rightarrow> offline_locals \<Rightarrow> string" where
  "document_file_path E l =
     SanitizePath E (cache_dir_path E l @ ''/'' @ additional_paths l @ ''/'' @ document_path l)"

definition main_url_path :: "environment \<Rightarrow> offline_locals \<Rightarrow> string" where
  "main_url_path E l = SanitizePath E (GetMainURL (document_file_path E l))"

text \<open>
  The second part of \<^verbatim>\<open>InitializeOffline\<close>, from \<^verbatim>\<open>Common::FS::Exists(main_url)\<close>
  to the end: the extraction of the archive into the cache directory.
\<close>

definition InitializeOffline_extract :: "environment \<Rightarrow> offline_locals \<Rightarrow> WebBrowser \<Rightarrow> WebBrowser" where
  "InitializeOffline_extract E l s =
     (let main_url = main_url_path E l;
          s1 = emit (Call_Exists main_url) s
      in
        if Exists s1 main_url then s1
        else
          (case GetOfflineRomFS E (title_id l) (nca_type l) s1 of
             (None, s2) \<Rightarrow> emit (Log Error) s2
           | (Some romfs, s2) \<Rightarrow>
               let s3 = emit (Log Debug) s2;
                   extracted_romfs_dir = ExtractRomFS E (Some romfs);
                   s4 = emit Call_ExtractRomFS s3;
                   s5 = emit (Call_CreateDirectory (offline_cache_dir s4))
                          (s4\<lparr>host_files := CreateDirectory E (host_files s4) (offline_cache_dir s4)\<rparr>)
               in emit (Call_VfsRawCopyD (offline_cache_dir s5))
                    (s5\<lparr>host_files :=
                          VfsRawCopyD E (host_files s5) extracted_romfs_dir (offline_cache_dir s5)\<rparr>)))"

definition InitializeOffline :: "environment \<Rightarrow> WebBrowser \<Rightarrow> outcome" where
  "InitializeOffline E s =
     (case InitializeOffline_locals E s of
        Inl f \<Rightarrow> Inl (f, s)
      | Inr l \<Rightarrow>
          if \<not> resource_index (document_kind l) < length RESOURCE_TYPES then
            Inl (OutOfBoundsIndex, s)
          else
            Inr (InitializeOffline_extract E l
                   (s\<lparr>offline_cache_dir := cache_dir_path E l,
                      offline_document := document_file_path E l\<rparr>)))"

subsection \<open>The applet's life cycle\<close>

text \<open>The initialisers of the six modes other than Offline have empty bodies.\<close>

definition InitializeShop :: "WebBrowser \<Rightarrow> outcome" where
  "InitializeShop s = Inr s"

definition InitializeLogin :: "WebBrowser \<Rightarrow> outcome" where
  "InitializeLogin s = Inr s"

definition InitializeShare :: "WebBrowser \<Rightarrow> outcome" where
  "InitializeShare s = Inr s"

definition InitializeWeb :: "WebBrowser \<Rightarrow> outcome" where
  "InitializeWeb s = Inr s"

definition InitializeWifi :: "WebBrowser \<Rightarrow> outcome" where
  "InitializeWifi s = Inr s"

definition InitializeLobby :: "WebBrowser \<Rightarrow> outcome" where
  "InitializeLobby s = Inr s"

text \<open>
  \<^verbatim>\<open>Initialize\<close>. It starts with the base class's \<^verbatim>\<open>Applet::Initialize\<close>, a
  call out of this file. \<open>web_arg_storage\<close> is what
  \<^verbatim>\<open>broker.PopNormalDataToApplet()\<close> returns (\<open>None\<close> for a null pointer), which
  the code dereferences after its \<^verbatim>\<open>ASSERT\<close>.
  \<^verbatim>\<open>ASSERT_OR_EXECUTE(c, { return; })\<close> asserts \<open>c\<close> and returns when it does not
  hold.
\<close>

definition Initialize :: "environment \<Rightarrow> u8 list option \<Rightarrow> WebBrowser \<Rightarrow> outcome" where
  "Initialize E web_arg_storage s =
     (let s1 = emit Call_PopNormalDataToApplet
                 (emit (Log Debug) (emit (Log Info) (emit Call_Applet_Initialize s)))
      in
        case web_arg_storage of
          None \<Rightarrow> assertion_failure E s1 (\<lambda>s2. Inl (NullDereference, s2))
        | Some web_arg \<Rightarrow>
            if \<not> sizeof_WebArgHeader (struct_layout E) \<le> length web_arg then
              assertion_failure E s1 Inr
            else
              (case ReadWebArgs (struct_layout E) web_arg of
                 Inl f \<Rightarrow> Inl (f, s1)
               | Inr (header, input_tlv_map) \<Rightarrow>
                   let s2 = emit (Log Debug)
                              (s1\<lparr>web_arg_header := header,
                                  web_arg_input_tlv_map := input_tlv_map\<rparr>)
                   in
                     (case shim_kind (web_arg_header s2) of
                        Shop \<Rightarrow> InitializeShop s2
                      | Login \<Rightarrow> InitializeLogin s2
                      | Offline \<Rightarrow> InitializeOffline E s2
                      | Share \<Rightarrow> InitializeShare s2
                      | Web \<Rightarrow> InitializeWeb s2
                      | Wifi \<Rightarrow> InitializeWifi s2
                      | Lobby \<Rightarrow> InitializeLobby s2
                      | InvalidShimKind v \<Rightarrow> assertion_failure E s2 Inr)))"

text \<open>
  The six stubs: a warning, then \<^verbatim>\<open>WebBrowserExit(WebExitReason::EndButtonPressed)\<close>.
  Modelled from the spec: the default argument of \<^verbatim>\<open>last_url\<close>, declared in the missing
  header (section 4.2: an empty URL).
\<close>

definition ExecuteStub :: "environment \<Rightarrow> WebBrowser \<Rightarrow> outcome" where
  "ExecuteStub E s = WebBrowserExit E EndButtonPressed [] (emit (Log Warning) s)"

definition ExecuteShop :: "environment \<Rightarrow> WebBrowser \<Rightarrow> outcome" where
  "ExecuteShop = ExecuteStub"

definition ExecuteLogin :: "environment \<Rightarrow> WebBrowser \<Rightarrow> outcome" where
  "ExecuteLogin = ExecuteStub"

definition ExecuteShare :: "environment \<Rightarrow> WebBrowser \<Rightarrow> outcome" where
  "ExecuteShare = ExecuteStub"

definition ExecuteWeb :: "environment \<Rightarrow> WebBrowser \<Rightarrow> outcome" where
  "ExecuteWeb = ExecuteStub"

definition ExecuteWifi :: "environment \<Rightarrow> WebBrowser \<Rightarrow> outcome" where
  "ExecuteWifi = ExecuteStub"

definition ExecuteLobby :: "environment \<Rightarrow> WebBrowser \<Rightarrow> outcome" where
  "ExecuteLobby = ExecuteStub"

text \<open>
  \<^verbatim>\<open>ExecuteOffline\<close> hands the document to the frontend with a callback and returns;
  the frontend invokes the callback on its own schedule.
\<close>

definition ExecuteOffline :: "environment \<Rightarrow> WebBrowser \<Rightarrow> outcome" where
  "ExecuteOffline E s = Inr (emit (Call_OpenLocalWebPage (offline_document s)) (emit (Log Info) s))"

definition ExecuteOffline_callback ::
  "environment \<Rightarrow> WebExitReason \<Rightarrow> string \<Rightarrow> WebBrowser \<Rightarrow> outcome"
where
  "ExecuteOffline_callback E reason url s = WebBrowserExit E reason url s"

definition Execute :: "environment \<Rightarrow> WebBrowser \<Rightarrow> outcome" where
  "Execute E s =
     (case shim_kind (web_arg_header s) of
        Shop \<Rightarrow> ExecuteShop E s
      | Login \<Rightarrow> ExecuteLogin E s
      | Offline \<Rightarrow> ExecuteOffline E s
      | Share \<Rightarrow> ExecuteShare E s
      | Web \<Rightarrow> ExecuteWeb E s
      | Wifi \<Rightarrow> ExecuteWifi E s
      | Lobby \<Rightarrow> ExecuteLobby E s
      | InvalidShimKind v \<Rightarrow>
          assertion_failure E s (WebBrowserExit E EndButtonPressed []))"

subsection \<open>Required fields, as the specification words them\<close>

text \<open>
  A tag that the selected document kind requires is absent from the argument map: the
  document path or the document kind for every request, the application identifier
  for legal information, the system data identifier for a system data page.
\<close>

definition required_field_missing :: "WebArgInputTLVMap \<Rightarrow> bool" where
  "required_field_missing m =
     (m DocumentPath = None \<or>
      (case m DocumentKind of
         None \<Rightarrow> True
       | Some kind_data \<Rightarrow>
           length kind_data = 4 \<and>
           (case as_DocumentKind (le_nat kind_data) of
              ApplicationLegalInformation \<Rightarrow> m ApplicationID = None
            | SystemDataPage \<Rightarrow> m SystemDataID = None
            | _ \<Rightarrow> False)))"

section \<open>Sample inputs\<close>

text \<open>
  A concrete layout to run the decoder on: an 8-byte header with the entry count in bytes
  0 and 1 and the mode tag in byte 2, and an 8-byte sub-header with the tag in bytes 0 to 3
  and the payload size in bytes 4 to 7. The numbering of the tags is the sample's own.
\<close>

definition sample_ShimKind :: "nat \<Rightarrow> ShimKind" where
  "sample_ShimKind v =
     (if v = 1 then Shop else if v = 2 then Login else if v = 3 then Offline
      else if v = 4 then Share else if v = 5 then Web else if v = 6 then Wifi
      else if v = 7 then Lobby else InvalidShimKind v)"

definition sample_TLVType :: "nat \<Rightarrow> WebArgInputTLVType" where
  "sample_TLVType v =
     (if v = 5 then ApplicationID else if v = 6 then DocumentPath
      else if v = 7 then DocumentKind else if v = 8 then SystemDataID
      else OtherTLVType v)"

definition sample_layout :: layout where
  "sample_layout =
     \<lparr> sizeof_WebArgHeader = 8,
       sizeof_WebArgInputTLV = 8,
       as_WebArgHeader = (\<lambda>bs.
         \<lparr> total_tlv_entries = of_nat (le_nat (take 2 bs)),
           shim_kind = sample_ShimKind (le_nat (take 1 (drop 2 bs))) \<rparr>),
       as_WebArgInputTLV = (\<lambda>bs.
         \<lparr> input_tlv_type = sample_TLVType (le_nat (take 4 bs)),
           arg_data_size = of_nat (le_nat (take 4 (drop 4 bs))) \<rparr>) \<rparr>"

text \<open>Two entries declared; the second one's payload is cut short.\<close>

definition sample_truncated :: "u8 list" where
  "sample_truncated =
     [2, 0, 3, 0, 0, 0, 0, 0,
      6, 0, 0, 0, 2, 0, 0, 0, 0x61, 0x62,
      7, 0, 0, 0, 4, 0, 0, 0, 1]"

text \<open>Two whole entries with the same tag.\<close>

definition sample_repeated :: "u8 list" where
  "sample_repeated =
     [2, 0, 3, 0, 0, 0, 0, 0,
      6, 0, 0, 0, 1, 0, 0, 0, 0x61,
      6, 0, 0, 0, 1, 0, 0, 0, 0x62]"

text \<open>
  Sample collaborators. Sanitising collapses repeated separators. The content provider
  holds the HTML archive of the running title, with one document in it; the system NAND
  holds nothing and every built-in system archive has one page. Creating a directory
  and copying a tree add their paths to host storage.
\<close>

fun collapse_separators :: "string \<Rightarrow> string" where
  "collapse_separators (a # b # cs) =
     (if a = CHR ''/'' \<and> b = CHR ''/'' then collapse_separators (b # cs)
      else a # collapse_separators (b # cs))"
| "collapse_separators cs = cs"

definition sample_CreateDirectory :: "string list \<Rightarrow> string \<Rightarrow> string list" where
  "sample_CreateDirectory files path = (if path \<in> set files then files else files @ [path])"

definition sample_VfsRawCopyD :: "string list \<Rightarrow> VirtualDir \<Rightarrow> string \<Rightarrow> string list" where
  "sample_VfsRawCopyD files src dest =
     (case src of
        None \<Rightarrow> files
      | Some tree \<Rightarrow> files @ map (\<lambda>f. dest @ ''/'' @ f) tree)"

definition sample_archive :: "string list \<Rightarrow> u64 \<Rightarrow> ContentRecordType \<Rightarrow> NCA option" where
  "sample_archive tree owner kind =
     (if owner = 0x0100000000000001 \<and> kind = HtmlDocument
      then Some \<lparr> GetRomFS = Some tree, GetBaseIVFCOffset = 0 \<rparr>
      else None)"

definition sample_environment :: "string list \<Rightarrow> environment" where
  "sample_environment tree =
     \<lparr> struct_layout = sample_layout,
       sizeof_last_url = 4096,
       assert_returns = True,
       GetTitleID = 0x0100000000000001,
       CacheDir = ''/c'',
       SanitizePath = collapse_separators,
       SystemNAND_GetEntry = (\<lambda>owner kind. None),
       ContentProvider_GetEntry = sample_archive tree,
       SynthesizeSystemArchive = (\<lambda>owner. Some [''page.html'']),
       PatchRomFS = (\<lambda>owner romfs offset kind. romfs),
       ExtractRomFS = (\<lambda>romfs. romfs),
       CreateDirectory = sample_CreateDirectory,
       VfsRawCopyD = sample_VfsRawCopyD \<rparr>"

text \<open>
  An applet whose argument map asks for a document of the given kind, by the path
  \<^verbatim>\<open>i.htm?x=1\<close> (zero-terminated, with a stray byte behind the terminator), with both
  identifier fields set to title \<^verbatim>\<open>0x0100000000000002\<close>.
\<close>

definition sample_fields :: "nat \<Rightarrow> WebArgInputTLVMap" where
  "sample_fields kind =
     [DocumentPath \<mapsto> [0x69, 0x2E, 0x68, 0x74, 0x6D, 0x3F, 0x78, 0x3D, 0x31, 0, 0x7A],
      DocumentKind \<mapsto> [of_nat kind, 0, 0, 0],
      ApplicationID \<mapsto> [2, 0, 0, 0, 0, 0, 0, 1],
      SystemDataID \<mapsto> [2, 0, 0, 0, 0, 0, 0, 1]]"

definition sample_applet :: "ShimKind \<Rightarrow> WebArgInputTLVMap \<Rightarrow> string list \<Rightarrow> WebBrowser" where
  "sample_applet kind input files =
     (WebBrowser_new files)
       \<lparr> web_arg_header := \<lparr> total_tlv_entries = 4, shim_kind = kind \<rparr>,
         web_arg_input_tlv_map := input \<rparr>"

text \<open>
  The cache directory of the running title's HTML documents under the sample
  collaborators, and the sample document in it without its query string.
\<close>

definition sample_cache_root :: string where
  "sample_cache_root = ''/c/offline_web_applet_manual/0100000000000001''"

definition sample_cached_document :: string where
  "sample_cached_document = ''/c/offline_web_applet_manual/0100000000000001/html-document/i.htm''"

text \<open>A header alone, whose mode tag is none of the seven.\<close>

definition sample_invalid_mode :: "u8 list" where
  "sample_invalid_mode = [0, 0, 9, 0, 0, 0, 0, 0]"

section \<open>Properties of the decoder\<close>

lemma u64_add_small: "a + b < 2 ^ 64 \<Longrightarrow> u64_add a b = a + b"
  by (simp add: u64_add_def)

lemma assign_all_append: "assign_all m (xs @ ys) = assign_all (assign_all m xs) ys"
  by (induction xs arbitrary: m) auto

lemma assign_all_absent: "t \<notin> fst ` set es \<Longrightarrow> assign_all m es t = m t"
  by (induction es arbitrary: m) auto

lemma assign_all_last:
  "t \<notin> fst ` set after \<Longrightarrow> assign_all m (before @ (t, d) # after) t = Some d"
  by (simp add: assign_all_append assign_all_absent)

lemma memcpy_from_ok: "off + n \<le> length src \<Longrightarrow> memcpy_from src off n = Inr (take n (drop off src))"
  by (simp add: memcpy_from_def)

lemma ReadWebArgs_loop_refines:
  assumes "current_offset \<le> length web_arg" and "length web_arg < 2 ^ 63"
    and "sizeof_WebArgInputTLV L \<le> 2 ^ 32"
  shows "ReadWebArgs_loop L web_arg entries i current_offset m =
           Inr (assign_all m (complete_entries L (entries - i) (drop current_offset web_arg)))"
  using assms
proof (induction L web_arg entries i current_offset m rule: ReadWebArgs_loop.induct)
  case (1 L web_arg entries i off m)
  let ?T = "sizeof_WebArgInputTLV L"
  show ?case
  proof (cases "i < entries")
    case False
    then show ?thesis by (simp add: ReadWebArgs_loop.simps)
  next
    case True
    then have cnt: "entries - i = Suc (entries - (i + 1))" by simp
    have bound: "(2::nat) ^ 63 + 2 ^ 32 < 2 ^ 64" by simp
    have a1: "u64_add off ?T = off + ?T"
      using "1.prems" bound by (intro u64_add_small) linarith
    show ?thesis
    proof (cases "length web_arg < off + ?T")
      case True
      then have "length (drop off web_arg) < ?T"
        using "1.prems" by simp
      then have "tagged_entry L (drop off web_arg) = None"
        by (simp only: tagged_entry_def if_True)
      with \<open>i < entries\<close> True a1 show ?thesis
        by (subst ReadWebArgs_loop.simps) (simp add: cnt)
    next
      case False
      then have fits: "off + ?T \<le> length web_arg" by simp
      define sub where "sub = as_WebArgInputTLV L (take ?T (drop off web_arg))"
      define n where "n = unat (arg_data_size sub)"
      have "n < 2 ^ 32" unfolding n_def using unsigned_less [of "arg_data_size sub", where ?'a = nat] by simp
      have a2: "u64_add (off + ?T) n = off + ?T + n"
        using fits "1.prems" bound \<open>n < 2 ^ 32\<close> by (intro u64_add_small) linarith
      show ?thesis
      proof (cases "length web_arg < off + ?T + n")
        case True
        then have "tagged_entry L (drop off web_arg) = None"
          using fits "1.prems" by (auto simp add: tagged_entry_def Let_def sub_def n_def)
        with \<open>i < entries\<close> True fits a1 a2 show ?thesis
          by (subst ReadWebArgs_loop.simps)
             (simp add: cnt memcpy_from_ok Let_def sub_def [symmetric] n_def [symmetric])
      next
        case False
        then have fits2: "off + ?T + n \<le> length web_arg" by simp
        have te: "tagged_entry L (drop off web_arg) =
                    Some ((input_tlv_type sub, take n (drop (off + ?T) web_arg)),
                          drop (off + ?T + n) web_arg)"
          using fits fits2 "1.prems"
          by (auto simp add: tagged_entry_def Let_def sub_def n_def add.commute add.left_commute)
        have IH: "ReadWebArgs_loop L web_arg entries (i + 1) (off + ?T + n)
                    (m(input_tlv_type sub \<mapsto> take n (drop (off + ?T) web_arg))) =
                  Inr (assign_all (m(input_tlv_type sub \<mapsto> take n (drop (off + ?T) web_arg)))
                        (complete_entries L (entries - (i + 1)) (drop (off + ?T + n) web_arg)))"
          using "1.IH" [OF \<open>i < entries\<close> _ _ refl refl _ _, of "take ?T (drop off web_arg)"
                          "take n (drop (off + ?T) web_arg)"]
                fits fits2 "1.prems" a1 a2
          by (simp add: memcpy_from_ok sub_def [symmetric] n_def [symmetric] fun_upd_def)
        show ?thesis
          using \<open>i < entries\<close> fits fits2 a1 a2 IH
          by (subst ReadWebArgs_loop.simps)
             (simp add: cnt te memcpy_from_ok Let_def sub_def [symmetric] n_def [symmetric])
      qed
    qed
  qed
qed

lemma tagged_entry_Some:
  assumes "tagged_entry L bs = Some ((t, d), rest)"
  shows "sizeof_WebArgInputTLV L + length d \<le> length bs"
    and "rest = drop (sizeof_WebArgInputTLV L + length d) bs"
  using assms
  by (auto simp add: tagged_entry_def Let_def add.commute split: if_splits)

lemma complete_entries_length: "length (complete_entries L n bs) \<le> n"
  by (induction n arbitrary: bs) (auto split: option.splits)

lemma complete_entries_contained: "entries_size L (complete_entries L n bs) \<le> length bs"
proof (induction n arbitrary: bs)
  case 0
  then show ?case by simp
next
  case (Suc n)
  show ?case
  proof (cases "tagged_entry L bs")
    case None
    then show ?thesis by simp
  next
    case (Some r)
    then obtain t d rest where r: "tagged_entry L bs = Some ((t, d), rest)"
      by (cases r) auto
    from tagged_entry_Some [OF r] Suc.IH [of rest] show ?thesis
      by (simp add: r)
  qed
qed

lemma complete_entries_maximal:
  "length (complete_entries L n bs) < n \<Longrightarrow>
   tagged_entry L (drop (entries_size L (complete_entries L n bs)) bs) = None"
proof (induction n arbitrary: bs)
  case 0
  then show ?case by simp
next
  case (Suc n)
  show ?case
  proof (cases "tagged_entry L bs")
    case None
    then show ?thesis by simp
  next
    case (Some r)
    then obtain t d rest where r: "tagged_entry L bs = Some ((t, d), rest)"
      by (cases r) auto
    from Suc.prems have "length (complete_entries L n rest) < n"
      by (simp add: r)
    from Suc.IH [OF this] tagged_entry_Some(2) [OF r] show ?thesis
      by (simp add: r add.commute add.left_commute)
  qed
qed

lemma complete_entries_in_place:
  "k < length (complete_entries L n bs) \<Longrightarrow>
   tagged_entry L (drop (entries_size L (take k (complete_entries L n bs))) bs) =
     Some (complete_entries L n bs ! k,
           drop (entries_size L (take (Suc k) (complete_entries L n bs))) bs)"
proof (induction n arbitrary: bs k)
  case 0
  then show ?case by simp
next
  case (Suc n)
  show ?case
  proof (cases "tagged_entry L bs")
    case None
    with Suc.prems show ?thesis by simp
  next
    case (Some r)
    then obtain t d rest where r: "tagged_entry L bs = Some ((t, d), rest)"
      by (cases r) auto
    note rest = tagged_entry_Some(2) [OF r]
    show ?thesis
    proof (cases k)
      case 0
      then show ?thesis using r rest by simp
    next
      case (Suc j)
      with Suc.prems have "j < length (complete_entries L n rest)"
        by (simp add: r)
      from Suc.IH [OF this] show ?thesis
        using rest by (simp add: r Suc add.commute add.left_commute)
    qed
  qed
qed

lemma ReadWebArgs_refines:
  assumes "sizeof_WebArgHeader L \<le> length web_arg" and "length web_arg < 2 ^ 63"
    and "0 < sizeof_WebArgInputTLV L" and "sizeof_WebArgInputTLV L \<le> 2 ^ 32"
  shows "ReadWebArgs L web_arg =
           Inr (as_WebArgHeader L (take (sizeof_WebArgHeader L) web_arg),
                assign_all Map.empty
                  (complete_entries L
                     (unat (total_tlv_entries
                        (as_WebArgHeader L (take (sizeof_WebArgHeader L) web_arg))))
                     (drop (sizeof_WebArgHeader L) web_arg)))"
proof (cases "length web_arg = sizeof_WebArgHeader L")
  case True
  have "complete_entries L n [] = []" for n
    using assms(3) by (cases n) (simp_all add: tagged_entry_def)
  with True show ?thesis
    by (simp add: ReadWebArgs_def memcpy_from_def)
next
  case False
  with assms show ?thesis
    by (simp add: ReadWebArgs_def memcpy_from_def ReadWebArgs_loop_refines Let_def)
qed

text \<open>
  C1 (decoder truncation law). For every buffer of at least \<^verbatim>\<open>sizeof(WebArgHeader)\<close>
  bytes, \<^verbatim>\<open>ReadWebArgs\<close> returns (no fault: no read outside the buffer) the header
  and the map of exactly the maximal prefix of the declared entries that the buffer
  holds in full: at most as many as declared, each one the whole entry found where its
  predecessors end, all of them within the buffer, and fewer than declared only where
  the next sub-header or its payload is cut short. A buffer of exactly the header's
  size gives the header and the empty map. The buffer is a \<^verbatim>\<open>std::vector\<close> (fewer
  than \<open>2^63\<close> bytes) and the sub-header a non-empty struct.
\<close>

theorem ReadWebArgs_truncation_law:
  fixes L :: layout and web_arg :: "u8 list"
  defines "header \<equiv> as_WebArgHeader L (take (sizeof_WebArgHeader L) web_arg)"
    and "bytes \<equiv> drop (sizeof_WebArgHeader L) web_arg"
  defines "es \<equiv> complete_entries L (unat (total_tlv_entries header)) bytes"
  assumes "sizeof_WebArgHeader L \<le> length web_arg" and "length web_arg < 2 ^ 63"
    and "0 < sizeof_WebArgInputTLV L" and "sizeof_WebArgInputTLV L \<le> 2 ^ 32"
  shows "ReadWebArgs L web_arg = Inr (header, assign_all Map.empty es)
         \<and> length es \<le> unat (total_tlv_entries header)
         \<and> entries_size L es \<le> length bytes
         \<and> (\<forall>k < length es.
               tagged_entry L (drop (entries_size L (take k es)) bytes) =
                 Some (es ! k, drop (entries_size L (take (Suc k) es)) bytes))
         \<and> (length es < unat (total_tlv_entries header) \<longrightarrow>
               tagged_entry L (drop (entries_size L es) bytes) = None)
         \<and> (length web_arg = sizeof_WebArgHeader L \<longrightarrow>
               ReadWebArgs L web_arg = Inr (as_WebArgHeader L web_arg, Map.empty))"
proof (intro conjI allI impI)
  show "ReadWebArgs L web_arg = Inr (header, assign_all Map.empty es)"
    unfolding es_def header_def bytes_def using assms(4-7) by (rule ReadWebArgs_refines)
  show "length es \<le> unat (total_tlv_entries header)"
    unfolding es_def by (rule complete_entries_length)
  show "entries_size L es \<le> length bytes"
    unfolding es_def by (rule complete_entries_contained)
  show "tagged_entry L (drop (entries_size L (take k es)) bytes) =
          Some (es ! k, drop (entries_size L (take (Suc k) es)) bytes)"
    if "k < length es" for k
    using that unfolding es_def by (rule complete_entries_in_place)
  show "tagged_entry L (drop (entries_size L es) bytes) = None"
    if "length es < unat (total_tlv_entries header)"
    using that unfolding es_def by (rule complete_entries_maximal)
  show "ReadWebArgs L web_arg = Inr (as_WebArgHeader L web_arg, Map.empty)"
    if "length web_arg = sizeof_WebArgHeader L"
    using that by (simp add: ReadWebArgs_def memcpy_from_def)
qed

lemma sample_tagged_entry_1:
  "tagged_entry sample_layout (drop 8 sample_truncated) =
     Some ((DocumentPath, [0x61, 0x62]), [7, 0, 0, 0, 4, 0, 0, 0, 1])"
  by (simp add: tagged_entry_def sample_layout_def sample_truncated_def le_nat_def
      sample_TLVType_def)

lemma sample_tagged_entry_2:
  "tagged_entry sample_layout [7, 0, 0, 0, 4, 0, 0, 0, 1] = None"
  by (simp add: tagged_entry_def sample_layout_def le_nat_def sample_TLVType_def)

theorem ReadWebArgs_truncation_law_witness:
  "sizeof_WebArgHeader sample_layout \<le> length sample_truncated
   \<and> length sample_truncated < 2 ^ 63
   \<and> 0 < sizeof_WebArgInputTLV sample_layout
   \<and> sizeof_WebArgInputTLV sample_layout \<le> 2 ^ 32
   \<and> ReadWebArgs sample_layout sample_truncated =
       Inr (\<lparr> total_tlv_entries = 2, shim_kind = Offline \<rparr>,
            [DocumentPath \<mapsto> [0x61, 0x62]])
   \<and> tagged_entry sample_layout (drop 10 (drop 8 sample_truncated)) = None"
proof -
  have h: "sizeof_WebArgHeader sample_layout \<le> length sample_truncated"
    "length sample_truncated < 2 ^ 63"
    "0 < sizeof_WebArgInputTLV sample_layout"
    "sizeof_WebArgInputTLV sample_layout \<le> 2 ^ 32"
    by (simp_all add: sample_layout_def sample_truncated_def)
  have hdr: "as_WebArgHeader sample_layout (take 8 sample_truncated)
               = \<lparr> total_tlv_entries = 2, shim_kind = Offline \<rparr>"
    by (simp add: sample_layout_def sample_truncated_def le_nat_def sample_ShimKind_def)
  have sz: "sizeof_WebArgHeader sample_layout = 8" "sizeof_WebArgInputTLV sample_layout = 8"
    by (simp_all add: sample_layout_def)
  have ents: "complete_entries sample_layout 2 (drop 8 sample_truncated)
               = [(DocumentPath, [0x61, 0x62])]"
    unfolding numeral_2_eq_2 by (simp add: sample_tagged_entry_1 sample_tagged_entry_2)
  show ?thesis
    using h ReadWebArgs_truncation_law [OF h] by (simp add: hdr sz ents)
qed

text \<open>
  C5 (map overwrite law). When the whole entries of a buffer include two with the same
  tag, and none with that tag after the second of them, the decoded map binds the tag to
  the payload of the later entry.
\<close>

theorem ReadWebArgs_later_entry_wins:
  assumes "sizeof_WebArgHeader L \<le> length web_arg" and "length web_arg < 2 ^ 63"
    and "0 < sizeof_WebArgInputTLV L" and "sizeof_WebArgInputTLV L \<le> 2 ^ 32"
    and "complete_entries L
           (unat (total_tlv_entries (as_WebArgHeader L (take (sizeof_WebArgHeader L) web_arg))))
           (drop (sizeof_WebArgHeader L) web_arg)
         = before @ (t, earlier) # between @ (t, later) # after"
    and "t \<notin> fst ` set after"
  shows "\<exists>header m. ReadWebArgs L web_arg = Inr (header, m) \<and> m t = Some later"
proof -
  have "assign_all Map.empty ((before @ (t, earlier) # between) @ (t, later) # after) t = Some later"
    using assms(6) by (rule assign_all_last)
  then show ?thesis
    using ReadWebArgs_refines [OF assms(1-4)] assms(5) by simp
qed

lemma sample_repeated_entry_1:
  "tagged_entry sample_layout (drop 8 sample_repeated) =
     Some ((DocumentPath, [0x61]), [6, 0, 0, 0, 1, 0, 0, 0, 0x62])"
  by (simp add: tagged_entry_def sample_layout_def sample_repeated_def le_nat_def
      sample_TLVType_def)

lemma sample_repeated_entry_2:
  "tagged_entry sample_layout [6, 0, 0, 0, 1, 0, 0, 0, 0x62] = Some ((DocumentPath, [0x62]), [])"
  by (simp add: tagged_entry_def sample_layout_def le_nat_def sample_TLVType_def)

theorem ReadWebArgs_later_entry_wins_witness:
  "sizeof_WebArgHeader sample_layout \<le> length sample_repeated
   \<and> length sample_repeated < 2 ^ 63
   \<and> 0 < sizeof_WebArgInputTLV sample_layout
   \<and> sizeof_WebArgInputTLV sample_layout \<le> 2 ^ 32
   \<and> complete_entries sample_layout
         (unat (total_tlv_entries
            (as_WebArgHeader sample_layout (take (sizeof_WebArgHeader sample_layout) sample_repeated))))
         (drop (sizeof_WebArgHeader sample_layout) sample_repeated)
       = [] @ (DocumentPath, [0x61]) # [] @ (DocumentPath, [0x62]) # []
   \<and> DocumentPath \<notin> fst ` set ([] :: (WebArgInputTLVType \<times> u8 list) list)
   \<and> (\<exists>header m. ReadWebArgs sample_layout sample_repeated = Inr (header, m)
          \<and> m DocumentPath = Some [0x62])"
proof -
  have h: "sizeof_WebArgHeader sample_layout \<le> length sample_repeated"
    "length sample_repeated < 2 ^ 63"
    "0 < sizeof_WebArgInputTLV sample_layout"
    "sizeof_WebArgInputTLV sample_layout \<le> 2 ^ 32"
    by (simp_all add: sample_layout_def sample_repeated_def)
  have sz: "sizeof_WebArgHeader sample_layout = 8" by (simp add: sample_layout_def)
  have hdr: "total_tlv_entries (as_WebArgHeader sample_layout (take 8 sample_repeated)) = 2"
    by (simp add: sample_layout_def sample_repeated_def le_nat_def)
  have ents: "complete_entries sample_layout
         (unat (total_tlv_entries
            (as_WebArgHeader sample_layout (take (sizeof_WebArgHeader sample_layout) sample_repeated))))
         (drop (sizeof_WebArgHeader sample_layout) sample_repeated)
       = [] @ (DocumentPath, [0x61]) # [] @ (DocumentPath, [0x62]) # []"
  proof -
    have two: "unat (2 :: u16) = Suc (Suc 0)" by simp
    show ?thesis
      unfolding sz hdr two by (simp add: sample_repeated_entry_1 sample_repeated_entry_2)
  qed
  have absent: "DocumentPath \<notin> fst ` set ([] :: (WebArgInputTLVType \<times> u8 list) list)" by simp
  show ?thesis
    using h ents absent ReadWebArgs_later_entry_wins [OF h ents absent] by blast
qed

section \<open>Properties of the mode dispatcher\<close>

lemma WebBrowserExit_ok:
  "length url \<le> sizeof_last_url E \<Longrightarrow>
   WebBrowserExit E reason url s =
     Inr (s\<lparr>complete := True,
            trace := trace s @
              [Log Debug,
               Call_PushNormalDataFromApplet
                 \<lparr> exit_reason = reason, last_url = url, last_url_size = length url \<rparr>,
               Call_SignalStateChanged]\<rparr>)"
  by (simp add: WebBrowserExit_def emit_def Let_def)

lemma WebBrowserExit_empty_url:
  "WebBrowserExit E reason [] s =
     Inr (s\<lparr>complete := True,
            trace := trace s @
              [Log Debug,
               Call_PushNormalDataFromApplet
                 \<lparr> exit_reason = reason, last_url = [], last_url_size = 0 \<rparr>,
               Call_SignalStateChanged]\<rparr>)"
  by (simp add: WebBrowserExit_ok)

lemma ExecuteStub_result:
  "ExecuteStub E s =
     Inr (s\<lparr>complete := True,
            trace := trace s @
              [Log Warning, Log Debug,
               Call_PushNormalDataFromApplet
                 \<lparr> exit_reason = EndButtonPressed, last_url = [], last_url_size = 0 \<rparr>,
               Call_SignalStateChanged]\<rparr>)"
  by (simp add: ExecuteStub_def WebBrowserExit_empty_url emit_def)

lemmas Execute_stub_defs =
  ExecuteShop_def ExecuteLogin_def ExecuteShare_def ExecuteWeb_def ExecuteWifi_def
  ExecuteLobby_def

lemmas Initialize_stub_defs =
  InitializeShop_def InitializeLogin_def InitializeShare_def InitializeWeb_def
  InitializeWifi_def InitializeLobby_def

text \<open>
  C4 (mode-stub exhaustiveness). In each of the six modes other than Offline,
  \<^verbatim>\<open>Execute\<close> returns with the applet complete, having logged and then pushed one
  result with exit reason \<^verbatim>\<open>EndButtonPressed\<close> and an empty last URL and signalled
  the state change: nothing else happens, and host storage is not part of what changes.
\<close>

theorem Execute_stub_modes:
  assumes "shim_kind (web_arg_header s) \<in> {Shop, Login, Share, Web, Wifi, Lobby}"
  shows "Execute E s =
           Inr (s\<lparr>complete := True,
                  trace := trace s @
                    [Log Warning, Log Debug,
                     Call_PushNormalDataFromApplet
                       \<lparr> exit_reason = EndButtonPressed, last_url = [], last_url_size = 0 \<rparr>,
                     Call_SignalStateChanged]\<rparr>)"
  using assms
  by (auto simp add: Execute_def Execute_stub_defs ExecuteStub_result)

theorem Execute_stub_modes_witness:
  "shim_kind (web_arg_header (sample_applet Web Map.empty [])) \<in> {Shop, Login, Share, Web, Wifi, Lobby}
   \<and> trace (state_of (Execute (sample_environment []) (sample_applet Web Map.empty []))) =
        [Log Warning, Log Debug,
         Call_PushNormalDataFromApplet
           \<lparr> exit_reason = EndButtonPressed, last_url = [], last_url_size = 0 \<rparr>,
         Call_SignalStateChanged]
   \<and> complete (state_of (Execute (sample_environment []) (sample_applet Web Map.empty [])))
   \<and> host_files (state_of (Execute (sample_environment []) (sample_applet Web Map.empty []))) = []"
proof -
  have h: "shim_kind (web_arg_header (sample_applet Web Map.empty []))
             \<in> {Shop, Login, Share, Web, Wifi, Lobby}"
    by (simp add: sample_applet_def)
  show ?thesis
    using h Execute_stub_modes [OF h, of "sample_environment []"]
    by (simp add: state_of_def sample_applet_def WebBrowser_new_def)
qed

lemma emit_fields [simp]:
  "trace (emit e s) = trace s @ [e]"
  "complete (emit e s) = complete s"
  "host_files (emit e s) = host_files s"
  "web_arg_header (emit e s) = web_arg_header s"
  "web_arg_input_tlv_map (emit e s) = web_arg_input_tlv_map s"
  "offline_cache_dir (emit e s) = offline_cache_dir s"
  "offline_document (emit e s) = offline_document s"
  by (simp_all add: emit_def)

lemma GetOfflineRomFS_fields:
  assumes "GetOfflineRomFS E owner kind s = (romfs, s')"
  shows "complete s' = complete s" and "host_files s' = host_files s"
    and "web_arg_header s' = web_arg_header s"
    and "web_arg_input_tlv_map s' = web_arg_input_tlv_map s"
    and "offline_cache_dir s' = offline_cache_dir s"
    and "offline_document s' = offline_document s"
  using assms
  by (auto simp add: GetOfflineRomFS_def Let_def split: if_splits option.splits)

lemma InitializeOffline_extract_fields:
  "complete (InitializeOffline_extract E l s) = complete s"
  "web_arg_header (InitializeOffline_extract E l s) = web_arg_header s"
  "web_arg_input_tlv_map (InitializeOffline_extract E l s) = web_arg_input_tlv_map s"
  "offline_cache_dir (InitializeOffline_extract E l s) = offline_cache_dir s"
  "offline_document (InitializeOffline_extract E l s) = offline_document s"
  by (auto simp add: InitializeOffline_extract_def Let_def
      split: prod.splits option.splits dest: GetOfflineRomFS_fields)

lemma InitializeOffline_complete:
  "complete (state_of (InitializeOffline E s)) = complete s"
  by (simp add: InitializeOffline_def state_of_def InitializeOffline_extract_fields
      split: sum.splits)

lemma assertion_failure_complete:
  "(\<And>s'. complete (state_of (k s')) = complete s') \<Longrightarrow>
   complete (state_of (assertion_failure E s k)) = complete s"
  by (simp add: assertion_failure_def Let_def state_of_def)

lemma Initialize_complete:
  "complete (state_of (Initialize E web_arg_storage s)) = complete s"
proof -
  have inr: "complete (state_of (Inr s' :: outcome)) = complete s'" for s'
    by (simp add: state_of_def)
  have inl: "complete (state_of (Inl (f, s') :: outcome)) = complete s'" for f s'
    by (simp add: state_of_def)
  show ?thesis
    unfolding Initialize_def Let_def
    by (simp add: inr inl assertion_failure_complete InitializeOffline_complete
        Initialize_stub_defs split: option.splits sum.splits prod.splits ShimKind.splits)
qed

lemma Initialize_dispatch:
  assumes "sizeof_WebArgHeader (struct_layout E) \<le> length web_arg"
    and "ReadWebArgs (struct_layout E) web_arg = Inr (header, m)"
  shows "Initialize E (Some web_arg) s =
           (let s2 = s\<lparr>web_arg_header := header, web_arg_input_tlv_map := m,
                         trace := trace s @
                           [Call_Applet_Initialize, Log Info, Log Debug, Call_PopNormalDataToApplet, Log Debug]\<rparr>
            in case shim_kind header of
                 Offline \<Rightarrow> InitializeOffline E s2
               | InvalidShimKind v \<Rightarrow> assertion_failure E s2 Inr
               | _ \<Rightarrow> Inr s2)"
  using assms
  by (simp add: Initialize_def Initialize_stub_defs Let_def emit_def split: ShimKind.splits)

text \<open>
  C9 (an unknown mode tag fails loudly). When the mode tag is none of the seven
  enumerators, \<^verbatim>\<open>Execute\<close> and \<^verbatim>\<open>Initialize\<close> both reach the
  \<^verbatim>\<open>UNREACHABLE_MSG\<close> of their \<^verbatim>\<open>default\<close> branch: the assertion is reported before
  anything else of the branch happens, and no mode's initialiser runs. Where the macro
  ends the process nothing follows; where it hands control back, \<^verbatim>\<open>Initialize\<close>
  returns and \<^verbatim>\<open>Execute\<close> goes on to \<^verbatim>\<open>WebBrowserExit\<close>.
\<close>

theorem invalid_ShimKind_asserts:
  "(shim_kind (web_arg_header s) = InvalidShimKind v \<longrightarrow>
      Execute E s =
        (if assert_returns E then WebBrowserExit E EndButtonPressed [] (emit AssertionFailed s)
         else Inl (AssertTerminated, emit AssertionFailed s))
      \<and> take (Suc (length (trace s))) (trace (state_of (Execute E s)))
          = trace s @ [AssertionFailed])
   \<and> (sizeof_WebArgHeader (struct_layout E) \<le> length web_arg
        \<and> ReadWebArgs (struct_layout E) web_arg = Inr (header, m)
        \<and> shim_kind header = InvalidShimKind v \<longrightarrow>
      Initialize E (Some web_arg) s =
        (if assert_returns E then Inr else (\<lambda>s'. Inl (AssertTerminated, s')))
          (s\<lparr>web_arg_header := header, web_arg_input_tlv_map := m,
              trace := trace s @
                [Call_Applet_Initialize, Log Info, Log Debug, Call_PopNormalDataToApplet, Log Debug,
                 AssertionFailed]\<rparr>))"
proof (intro conjI impI)
  assume inv: "shim_kind (web_arg_header s) = InvalidShimKind v"
  then show ex: "Execute E s =
        (if assert_returns E then WebBrowserExit E EndButtonPressed [] (emit AssertionFailed s)
         else Inl (AssertTerminated, emit AssertionFailed s))"
    by (simp add: Execute_def assertion_failure_def Let_def)
  show "take (Suc (length (trace s))) (trace (state_of (Execute E s))) = trace s @ [AssertionFailed]"
    unfolding ex by (simp add: WebBrowserExit_empty_url state_of_def)
next
  assume "sizeof_WebArgHeader (struct_layout E) \<le> length web_arg
        \<and> ReadWebArgs (struct_layout E) web_arg = Inr (header, m)
        \<and> shim_kind header = InvalidShimKind v"
  then show "Initialize E (Some web_arg) s =
        (if assert_returns E then Inr else (\<lambda>s'. Inl (AssertTerminated, s')))
          (s\<lparr>web_arg_header := header, web_arg_input_tlv_map := m,
              trace := trace s @
                [Call_Applet_Initialize, Log Info, Log Debug, Call_PopNormalDataToApplet, Log Debug,
                 AssertionFailed]\<rparr>)"
    by (simp add: Initialize_dispatch assertion_failure_def Let_def emit_def)
qed

lemma sample_invalid_mode_decoded:
  "ReadWebArgs sample_layout sample_invalid_mode =
     Inr (\<lparr> total_tlv_entries = 0, shim_kind = InvalidShimKind 9 \<rparr>, Map.empty)"
  by (simp add: ReadWebArgs_def memcpy_from_def sample_layout_def sample_invalid_mode_def
      le_nat_def sample_ShimKind_def)

theorem invalid_ShimKind_asserts_witness:
  "shim_kind (web_arg_header (sample_applet (InvalidShimKind 9) Map.empty [])) = InvalidShimKind 9
   \<and> trace (state_of (Execute (sample_environment [])
                (sample_applet (InvalidShimKind 9) Map.empty []))) =
       [AssertionFailed, Log Debug,
        Call_PushNormalDataFromApplet
          \<lparr> exit_reason = EndButtonPressed, last_url = [], last_url_size = 0 \<rparr>,
        Call_SignalStateChanged]
   \<and> Execute ((sample_environment [])\<lparr>assert_returns := False\<rparr>)
         (sample_applet (InvalidShimKind 9) Map.empty []) =
       Inl (AssertTerminated, emit AssertionFailed (sample_applet (InvalidShimKind 9) Map.empty []))
   \<and> sizeof_WebArgHeader (struct_layout (sample_environment [])) \<le> length sample_invalid_mode
   \<and> ReadWebArgs (struct_layout (sample_environment [])) sample_invalid_mode =
       Inr (\<lparr> total_tlv_entries = 0, shim_kind = InvalidShimKind 9 \<rparr>, Map.empty)
   \<and> trace (state_of (Initialize (sample_environment []) (Some sample_invalid_mode)
                (WebBrowser_new []))) =
       [Call_Applet_Initialize, Log Info, Log Debug, Call_PopNormalDataToApplet, Log Debug, AssertionFailed]"
proof -
  let ?E = "sample_environment []"
  let ?F = "(sample_environment [])\<lparr>assert_returns := False\<rparr>"
  let ?s = "sample_applet (InvalidShimKind 9) Map.empty []"
  have k: "shim_kind (web_arg_header ?s) = InvalidShimKind 9"
    by (simp add: sample_applet_def)
  have sz: "sizeof_WebArgHeader (struct_layout ?E) \<le> length sample_invalid_mode"
    by (simp add: sample_environment_def sample_layout_def sample_invalid_mode_def)
  have rd: "ReadWebArgs (struct_layout ?E) sample_invalid_mode =
       Inr (\<lparr> total_tlv_entries = 0, shim_kind = InvalidShimKind 9 \<rparr>, Map.empty)"
    using sample_invalid_mode_decoded by (simp add: sample_environment_def)
  have ar: "assert_returns ?E" "\<not> assert_returns ?F"
    by (simp_all add: sample_environment_def)
  note t1 = invalid_ShimKind_asserts [of ?s 9 ?E sample_invalid_mode
      "\<lparr> total_tlv_entries = 0, shim_kind = InvalidShimKind 9 \<rparr>" Map.empty]
  note t2 = invalid_ShimKind_asserts [of ?s 9 ?F sample_invalid_mode
      "\<lparr> total_tlv_entries = 0, shim_kind = InvalidShimKind 9 \<rparr>" Map.empty]
  have e1: "trace (state_of (Execute ?E ?s)) =
       [AssertionFailed, Log Debug,
        Call_PushNormalDataFromApplet
          \<lparr> exit_reason = EndButtonPressed, last_url = [], last_url_size = 0 \<rparr>,
        Call_SignalStateChanged]"
    using t1 k ar
    by (simp add: WebBrowserExit_empty_url state_of_def sample_applet_def WebBrowser_new_def)
  have e2: "Execute ?F ?s = Inl (AssertTerminated, emit AssertionFailed ?s)"
    using t2 k ar by simp
  have i1: "trace (state_of (Initialize ?E (Some sample_invalid_mode) (WebBrowser_new []))) =
       [Call_Applet_Initialize, Log Info, Log Debug, Call_PopNormalDataToApplet, Log Debug, AssertionFailed]"
    using invalid_ShimKind_asserts [of "WebBrowser_new []" 9 ?E sample_invalid_mode
      "\<lparr> total_tlv_entries = 0, shim_kind = InvalidShimKind 9 \<rparr>" Map.empty] sz rd ar
    by (simp add: state_of_def WebBrowser_new_def)
  show ?thesis
    using k e1 e2 sz rd i1 by simp
qed

text \<open>
  C10 (completion invariant). A new applet is not complete and \<^verbatim>\<open>Initialize\<close> leaves
  the flag as it is. Every path that completes goes through \<^verbatim>\<open>WebBrowserExit\<close>: the
  six stubs of \<^verbatim>\<open>Execute\<close>, its \<^verbatim>\<open>default\<close> branch where the assertion macro hands
  control back, and the callback of the Offline mode (whose \<^verbatim>\<open>Execute\<close> only opens
  the page and leaves the flag alone). \<^verbatim>\<open>WebBrowserExit\<close>, for a URL that fits the
  result's buffer, sets the flag, pushes one result and signals once; whenever it
  returns, \<^verbatim>\<open>TransactionComplete\<close> holds.
\<close>

theorem completion_through_WebBrowserExit:
  "\<not> TransactionComplete (WebBrowser_new files)
   \<and> TransactionComplete (state_of (Initialize E web_arg_storage s)) = TransactionComplete s
   \<and> (shim_kind (web_arg_header s) = Offline \<longrightarrow>
        Execute E s =
          Inr (s\<lparr>trace := trace s @ [Log Info, Call_OpenLocalWebPage (offline_document s)]\<rparr>))
   \<and> (shim_kind (web_arg_header s) \<in> {Shop, Login, Share, Web, Wifi, Lobby} \<longrightarrow>
        Execute E s = WebBrowserExit E EndButtonPressed [] (emit (Log Warning) s))
   \<and> (shim_kind (web_arg_header s) = InvalidShimKind v \<and> assert_returns E \<longrightarrow>
        Execute E s = WebBrowserExit E EndButtonPressed [] (emit AssertionFailed s))
   \<and> ExecuteOffline_callback E reason url s = WebBrowserExit E reason url s
   \<and> (length url \<le> sizeof_last_url E \<longrightarrow>
        WebBrowserExit E reason url s =
          Inr (s\<lparr>complete := True,
                 trace := trace s @
                   [Log Debug,
                    Call_PushNormalDataFromApplet
                      \<lparr> exit_reason = reason, last_url = url, last_url_size = length url \<rparr>,
                    Call_SignalStateChanged]\<rparr>))
   \<and> (WebBrowserExit E reason url s = Inr s' \<longrightarrow> TransactionComplete s')"
proof (intro conjI impI)
  show "\<not> TransactionComplete (WebBrowser_new files)"
    by (simp add: TransactionComplete_def WebBrowser_new_def)
  show "TransactionComplete (state_of (Initialize E web_arg_storage s)) = TransactionComplete s"
    by (simp add: TransactionComplete_def Initialize_complete)
  show "Execute E s =
          Inr (s\<lparr>trace := trace s @ [Log Info, Call_OpenLocalWebPage (offline_document s)]\<rparr>)"
    if "shim_kind (web_arg_header s) = Offline"
    using that by (simp add: Execute_def ExecuteOffline_def emit_def)
  show "Execute E s = WebBrowserExit E EndButtonPressed [] (emit (Log Warning) s)"
    if "shim_kind (web_arg_header s) \<in> {Shop, Login, Share, Web, Wifi, Lobby}"
    using that by (auto simp add: Execute_def Execute_stub_defs ExecuteStub_def)
  show "Execute E s = WebBrowserExit E EndButtonPressed [] (emit AssertionFailed s)"
    if "shim_kind (web_arg_header s) = InvalidShimKind v \<and> assert_returns E"
    using that by (simp add: Execute_def assertion_failure_def Let_def)
  show "ExecuteOffline_callback E reason url s = WebBrowserExit E reason url s"
    by (simp add: ExecuteOffline_callback_def)
  show "WebBrowserExit E reason url s =
          Inr (s\<lparr>complete := True,
                 trace := trace s @
                   [Log Debug,
                    Call_PushNormalDataFromApplet
                      \<lparr> exit_reason = reason, last_url = url, last_url_size = length url \<rparr>,
                    Call_SignalStateChanged]\<rparr>)"
    if "length url \<le> sizeof_last_url E"
    using that by (rule WebBrowserExit_ok)
  show "TransactionComplete s'" if "WebBrowserExit E reason url s = Inr s'"
    using that
    by (auto simp add: WebBrowserExit_def TransactionComplete_def Let_def emit_def
        split: if_splits)
qed

theorem completion_through_WebBrowserExit_witness:
  "shim_kind (web_arg_header (sample_applet Offline (sample_fields 1) [])) = Offline
   \<and> length ''i.htm'' \<le> sizeof_last_url (sample_environment [])
   \<and> \<not> TransactionComplete (sample_applet Offline (sample_fields 1) [])
   \<and> \<not> TransactionComplete
         (state_of (Execute (sample_environment []) (sample_applet Offline (sample_fields 1) [])))
   \<and> TransactionComplete
         (state_of (ExecuteOffline_callback (sample_environment []) (OtherExitReason 1) ''i.htm''
            (state_of (Execute (sample_environment [])
               (sample_applet Offline (sample_fields 1) [])))))
   \<and> trace
         (state_of (ExecuteOffline_callback (sample_environment []) (OtherExitReason 1) ''i.htm''
            (state_of (Execute (sample_environment [])
               (sample_applet Offline (sample_fields 1) []))))) =
       [Log Info, Call_OpenLocalWebPage [], Log Debug,
        Call_PushNormalDataFromApplet
          \<lparr> exit_reason = OtherExitReason 1, last_url = ''i.htm'', last_url_size = 5 \<rparr>,
        Call_SignalStateChanged]"
proof -
  let ?E = "sample_environment []"
  let ?s = "sample_applet Offline (sample_fields 1) []"
  let ?s1 = "?s\<lparr>trace := trace ?s @ [Log Info, Call_OpenLocalWebPage (offline_document ?s)]\<rparr>"
  have k: "shim_kind (web_arg_header ?s) = Offline"
    by (simp add: sample_applet_def)
  have cap: "length ''i.htm'' \<le> sizeof_last_url ?E"
    by (simp add: sample_environment_def)
  have ex: "Execute ?E ?s = Inr ?s1"
    using completion_through_WebBrowserExit [of "[]" ?E None ?s 0 "OtherExitReason 1" "''i.htm''" ?s]
      k by blast
  have cb: "ExecuteOffline_callback ?E (OtherExitReason 1) ''i.htm'' ?s1 =
          Inr (?s1\<lparr>complete := True,
                 trace := trace ?s1 @
                   [Log Debug,
                    Call_PushNormalDataFromApplet
                      \<lparr> exit_reason = OtherExitReason 1, last_url = ''i.htm'',
                        last_url_size = length ''i.htm'' \<rparr>,
                    Call_SignalStateChanged]\<rparr>)"
    using completion_through_WebBrowserExit
      [of "[]" ?E None ?s1 0 "OtherExitReason 1" "''i.htm''" ?s1] cap
    by presburger
  have r1: "state_of (Execute ?E ?s) = ?s1"
    unfolding ex by (simp add: state_of_def)
  have r2: "state_of (ExecuteOffline_callback ?E (OtherExitReason 1) ''i.htm'' ?s1) =
          ?s1\<lparr>complete := True,
                 trace := trace ?s1 @
                   [Log Debug,
                    Call_PushNormalDataFromApplet
                      \<lparr> exit_reason = OtherExitReason 1, last_url = ''i.htm'',
                        last_url_size = length ''i.htm'' \<rparr>,
                    Call_SignalStateChanged]\<rparr>"
    unfolding cb by (simp add: state_of_def)
  show ?thesis
    unfolding r1 r2 using k cap
    by (simp add: TransactionComplete_def sample_applet_def WebBrowser_new_def)
qed

section \<open>Properties of the Offline mode\<close>

lemma sample_document_path:
  "ParseStringValue [0x69, 0x2E, 0x68, 0x74, 0x6D, 0x3F, 0x78, 0x3D, 0x31, 0, 0x7A] = ''i.htm?x=1''"
  by code_simp

text \<open>
  C7 (content resolver mapping). With the document path and a four-byte document kind
  in the argument map, the locals that \<^verbatim>\<open>InitializeOffline\<close> computes are: for an
  offline HTML page the title of the current process, \<^verbatim>\<open>HtmlDocument\<close> and
  \<^verbatim>\<open>html-document\<close>; for legal information the eight-byte application identifier,
  \<^verbatim>\<open>LegalInformation\<close> and no sub-path; for a system data page the eight-byte system
  data identifier, \<^verbatim>\<open>Data\<close> and no sub-path; and in all three the document path is
  the field's bytes up to its first zero byte.
\<close>

theorem InitializeOffline_resolution:
  assumes "web_arg_input_tlv_map s DocumentPath = Some path_data"
    and "web_arg_input_tlv_map s DocumentKind = Some kind_data"
    and "length kind_data = 4"
  shows
    "(as_DocumentKind (le_nat kind_data) = OfflineHtmlPage \<longrightarrow>
        InitializeOffline_locals E s =
          Inr \<lparr> document_path = map char_of_byte (takeWhile (\<lambda>b. b \<noteq> 0) path_data),
                document_kind = OfflineHtmlPage,
                title_id = GetTitleID E, nca_type = HtmlDocument,
                additional_paths = ''html-document'' \<rparr>)
     \<and> (as_DocumentKind (le_nat kind_data) = ApplicationLegalInformation
          \<and> web_arg_input_tlv_map s ApplicationID = Some id_data \<and> length id_data = 8 \<longrightarrow>
        InitializeOffline_locals E s =
          Inr \<lparr> document_path = map char_of_byte (takeWhile (\<lambda>b. b \<noteq> 0) path_data),
                document_kind = ApplicationLegalInformation,
                title_id = of_nat (le_nat id_data), nca_type = LegalInformation,
                additional_paths = [] \<rparr>)
     \<and> (as_DocumentKind (le_nat kind_data) = SystemDataPage
          \<and> web_arg_input_tlv_map s SystemDataID = Some id_data \<and> length id_data = 8 \<longrightarrow>
        InitializeOffline_locals E s =
          Inr \<lparr> document_path = map char_of_byte (takeWhile (\<lambda>b. b \<noteq> 0) path_data),
                document_kind = SystemDataPage,
                title_id = of_nat (le_nat id_data), nca_type = Data,
                additional_paths = [] \<rparr>)"
  using assms
  by (simp add: InitializeOffline_locals_def GetInputTLVData_def ParseRawValue_def
      ParseStringValue_def Let_def)

lemma sample_kind_values:
  "as_DocumentKind (le_nat [1, 0, 0, 0]) = OfflineHtmlPage"
  "as_DocumentKind (le_nat [2, 0, 0, 0]) = ApplicationLegalInformation"
  "as_DocumentKind (le_nat [3, 0, 0, 0]) = SystemDataPage"
  by (simp_all add: as_DocumentKind_def le_nat_def)

lemma sample_title_value: "(of_nat (le_nat [2, 0, 0, 0, 0, 0, 0, 1]) :: u64) = 0x0100000000000002"
  by (simp add: le_nat_def)

theorem InitializeOffline_resolution_witness:
  "web_arg_input_tlv_map (sample_applet Offline (sample_fields 1) []) DocumentPath
     = Some [0x69, 0x2E, 0x68, 0x74, 0x6D, 0x3F, 0x78, 0x3D, 0x31, 0, 0x7A]
   \<and> web_arg_input_tlv_map (sample_applet Offline (sample_fields 1) []) DocumentKind
     = Some [1, 0, 0, 0]
   \<and> length [1 :: u8, 0, 0, 0] = 4
   \<and> InitializeOffline_locals (sample_environment []) (sample_applet Offline (sample_fields 1) []) =
       Inr \<lparr> document_path = ''i.htm?x=1'', document_kind = OfflineHtmlPage,
             title_id = 0x0100000000000001, nca_type = HtmlDocument,
             additional_paths = ''html-document'' \<rparr>
   \<and> InitializeOffline_locals (sample_environment []) (sample_applet Offline (sample_fields 2) []) =
       Inr \<lparr> document_path = ''i.htm?x=1'', document_kind = ApplicationLegalInformation,
             title_id = 0x0100000000000002, nca_type = LegalInformation,
             additional_paths = [] \<rparr>
   \<and> InitializeOffline_locals (sample_environment []) (sample_applet Offline (sample_fields 3) []) =
       Inr \<lparr> document_path = ''i.htm?x=1'', document_kind = SystemDataPage,
             title_id = 0x0100000000000002, nca_type = Data,
             additional_paths = [] \<rparr>"
proof -
  let ?E = "sample_environment []"
  let ?p = "[0x69, 0x2E, 0x68, 0x74, 0x6D, 0x3F, 0x78, 0x3D, 0x31, 0, 0x7A] :: u8 list"
  let ?i = "[2, 0, 0, 0, 0, 0, 0, 1] :: u8 list"
  have p: "web_arg_input_tlv_map (sample_applet Offline (sample_fields k) []) DocumentPath = Some ?p"
    for k by (simp add: sample_applet_def sample_fields_def)
  have k: "web_arg_input_tlv_map (sample_applet Offline (sample_fields 1) []) DocumentKind = Some [1, 0, 0, 0]"
    "web_arg_input_tlv_map (sample_applet Offline (sample_fields 2) []) DocumentKind = Some [2, 0, 0, 0]"
    "web_arg_input_tlv_map (sample_applet Offline (sample_fields 3) []) DocumentKind = Some [3, 0, 0, 0]"
    by (simp_all add: sample_applet_def sample_fields_def)
  have i: "web_arg_input_tlv_map (sample_applet Offline (sample_fields k) []) ApplicationID = Some ?i"
    "web_arg_input_tlv_map (sample_applet Offline (sample_fields k) []) SystemDataID = Some ?i"
    for k by (simp_all add: sample_applet_def sample_fields_def)
  have len: "length [1 :: u8, 0, 0, 0] = 4" "length [2 :: u8, 0, 0, 0] = 4"
    "length [3 :: u8, 0, 0, 0] = 4" "length ?i = 8"
    by simp_all
  have path: "map char_of_byte (takeWhile (\<lambda>b. b \<noteq> 0) ?p) = ''i.htm?x=1''"
    using sample_document_path by (simp add: ParseStringValue_def)
  have me: "GetTitleID ?E = 0x0100000000000001"
    by (simp add: sample_environment_def)
  have r1: "InitializeOffline_locals ?E (sample_applet Offline (sample_fields 1) []) =
       Inr \<lparr> document_path = ''i.htm?x=1'', document_kind = OfflineHtmlPage,
             title_id = 0x0100000000000001, nca_type = HtmlDocument,
             additional_paths = ''html-document'' \<rparr>"
    using InitializeOffline_resolution [OF p k(1) len(1), where E = ?E and id_data = ?i] sample_kind_values
    unfolding path me by blast
  have r2: "InitializeOffline_locals ?E (sample_applet Offline (sample_fields 2) []) =
       Inr \<lparr> document_path = ''i.htm?x=1'', document_kind = ApplicationLegalInformation,
             title_id = 0x0100000000000002, nca_type = LegalInformation,
             additional_paths = [] \<rparr>"
    using InitializeOffline_resolution [OF p k(2) len(2), where E = ?E and id_data = ?i] sample_kind_values i len(4)
    unfolding path sample_title_value by blast
  have r3: "InitializeOffline_locals ?E (sample_applet Offline (sample_fields 3) []) =
       Inr \<lparr> document_path = ''i.htm?x=1'', document_kind = SystemDataPage,
             title_id = 0x0100000000000002, nca_type = Data,
             additional_paths = [] \<rparr>"
    using InitializeOffline_resolution [OF p k(3) len(3), where E = ?E and id_data = ?i] sample_kind_values i len(4)
    unfolding path sample_title_value by blast
  show ?thesis
    using p [of 1] k(1) len(1) r1 r2 r3 by blast
qed

lemma InitializeOffline_locals_missing:
  "required_field_missing (web_arg_input_tlv_map s) \<Longrightarrow>
   InitializeOffline_locals E s = Inl BadOptionalAccess"
  by (auto simp add: required_field_missing_def InitializeOffline_locals_def GetInputTLVData_def
      ParseRawValue_def Let_def split: option.splits DocumentKind.splits)

lemma sample_truncated_decoded:
  "ReadWebArgs sample_layout sample_truncated =
     Inr (\<lparr> total_tlv_entries = 2, shim_kind = Offline \<rparr>, [DocumentPath \<mapsto> [0x61, 0x62]])"
proof -
  have h: "sizeof_WebArgHeader sample_layout \<le> length sample_truncated"
    "length sample_truncated < 2 ^ 63"
    "0 < sizeof_WebArgInputTLV sample_layout"
    "sizeof_WebArgInputTLV sample_layout \<le> 2 ^ 32"
    by (simp_all add: sample_layout_def sample_truncated_def)
  have hdr: "as_WebArgHeader sample_layout (take 8 sample_truncated)
               = \<lparr> total_tlv_entries = 2, shim_kind = Offline \<rparr>"
    by (simp add: sample_layout_def sample_truncated_def le_nat_def sample_ShimKind_def)
  have sz: "sizeof_WebArgHeader sample_layout = 8" by (simp add: sample_layout_def)
  have ents: "complete_entries sample_layout 2 (drop 8 sample_truncated)
               = [(DocumentPath, [0x61, 0x62])]"
    unfolding numeral_2_eq_2 by (simp add: sample_tagged_entry_1 sample_tagged_entry_2)
  show ?thesis
    using ReadWebArgs_refines [OF h] by (simp add: hdr sz ents)
qed

text \<open>
  C8 (a missing required field is fatal). When the decoded map of an Offline request
  lacks a tag its document kind requires, \<^verbatim>\<open>InitializeOffline\<close> ends in the
  \<^verbatim>\<open>std::bad_optional_access\<close> that \<^verbatim>\<open>.value()\<close> throws, with the applet as it was
  (no path set, nothing defaulted), and \<^verbatim>\<open>Initialize\<close> ends in the same exception
  rather than returning: it has logged and popped its argument, and touched neither
  host storage nor the completion flag.
\<close>

theorem missing_required_field_is_fatal:
  assumes "sizeof_WebArgHeader (struct_layout E) \<le> length web_arg"
    and "ReadWebArgs (struct_layout E) web_arg = Inr (header, m)"
    and "shim_kind header = Offline"
    and "required_field_missing m"
  shows "InitializeOffline E (s\<lparr>web_arg_header := header, web_arg_input_tlv_map := m\<rparr>)
           = Inl (BadOptionalAccess, s\<lparr>web_arg_header := header, web_arg_input_tlv_map := m\<rparr>)
         \<and> Initialize E (Some web_arg) s =
             Inl (BadOptionalAccess,
                  s\<lparr>web_arg_header := header, web_arg_input_tlv_map := m,
                     trace := trace s @
                       [Call_Applet_Initialize, Log Info, Log Debug, Call_PopNormalDataToApplet, Log Debug]\<rparr>)"
proof -
  have "InitializeOffline E s' = Inl (BadOptionalAccess, s')"
    if "web_arg_input_tlv_map s' = m" for s'
    using that assms(4) by (simp add: InitializeOffline_def InitializeOffline_locals_missing)
  then show ?thesis
    using assms(1-3) by (simp add: Initialize_dispatch Let_def)
qed

theorem missing_required_field_is_fatal_witness:
  "sizeof_WebArgHeader (struct_layout (sample_environment [])) \<le> length sample_truncated
   \<and> ReadWebArgs (struct_layout (sample_environment [])) sample_truncated =
       Inr (\<lparr> total_tlv_entries = 2, shim_kind = Offline \<rparr>, [DocumentPath \<mapsto> [0x61, 0x62]])
   \<and> shim_kind \<lparr> total_tlv_entries = 2, shim_kind = Offline \<rparr> = Offline
   \<and> required_field_missing [DocumentPath \<mapsto> [0x61, 0x62]]
   \<and> Initialize (sample_environment []) (Some sample_truncated) (WebBrowser_new []) =
       Inl (BadOptionalAccess,
            (WebBrowser_new [])
              \<lparr>web_arg_header := \<lparr> total_tlv_entries = 2, shim_kind = Offline \<rparr>,
               web_arg_input_tlv_map := [DocumentPath \<mapsto> [0x61, 0x62]],
               trace := [Call_Applet_Initialize, Log Info, Log Debug, Call_PopNormalDataToApplet, Log Debug]\<rparr>)"
proof -
  let ?E = "sample_environment []"
  have sz: "sizeof_WebArgHeader (struct_layout ?E) \<le> length sample_truncated"
    by (simp add: sample_environment_def sample_layout_def sample_truncated_def)
  have rd: "ReadWebArgs (struct_layout ?E) sample_truncated =
       Inr (\<lparr> total_tlv_entries = 2, shim_kind = Offline \<rparr>, [DocumentPath \<mapsto> [0x61, 0x62]])"
    using sample_truncated_decoded by (simp add: sample_environment_def)
  have k: "shim_kind \<lparr> total_tlv_entries = 2, shim_kind = Offline \<rparr> = Offline"
    by simp
  have miss: "required_field_missing [DocumentPath \<mapsto> [0x61, 0x62]]"
    by (simp add: required_field_missing_def)
  show ?thesis
    using sz rd k miss missing_required_field_is_fatal [OF sz rd k miss, of "WebBrowser_new []"]
    by (simp add: WebBrowser_new_def)
qed

lemma GetMainURL_without_query: "CHR ''?'' \<notin> set url \<Longrightarrow> GetMainURL url = url"
  by (simp add: GetMainURL_def string_find_def)

lemma GetMainURL_with_query:
  assumes "CHR ''?'' \<notin> set path"
  shows "GetMainURL (path @ CHR ''?'' # query) = path"
proof -
  have "takeWhile (\<lambda>x. x \<noteq> CHR ''?'') (path @ CHR ''?'' # query) = path"
    using assms by (subst takeWhile_append2) auto
  then show ?thesis
    by (simp add: GetMainURL_def string_find_def)
qed

lemma InitializeOffline_ok:
  assumes "InitializeOffline_locals E s = Inr l"
    and "resource_index (document_kind l) < length RESOURCE_TYPES"
  shows "InitializeOffline E s =
           Inr (InitializeOffline_extract E l
                  (s\<lparr>offline_cache_dir := cache_dir_path E l,
                     offline_document := document_file_path E l\<rparr>))"
  using assms by (simp add: InitializeOffline_def)

lemma InitializeOffline_Inr_iff:
  "InitializeOffline E s = Inr s' \<longleftrightarrow>
     (\<exists>l. InitializeOffline_locals E s = Inr l
        \<and> resource_index (document_kind l) < length RESOURCE_TYPES
        \<and> s' = InitializeOffline_extract E l
                  (s\<lparr>offline_cache_dir := cache_dir_path E l,
                     offline_document := document_file_path E l\<rparr>))"
  by (auto simp add: InitializeOffline_def split: sum.splits)

lemma extract_when_present:
  "main_url_path E l \<in> set (host_files s) \<Longrightarrow>
   InitializeOffline_extract E l s = emit (Call_Exists (main_url_path E l)) s"
  by (simp add: InitializeOffline_extract_def Let_def Exists_def)

lemma GetOfflineRomFS_trace:
  "GetOfflineRomFS E owner kind s = (romfs, s') \<Longrightarrow> \<exists>more. trace s' = trace s @ more"
  by (auto simp add: GetOfflineRomFS_def Let_def split: if_splits option.splits)

lemma extract_trace_starts:
  "\<exists>more. trace (InitializeOffline_extract E l s) =
            trace s @ Call_Exists (main_url_path E l) # more"
  by (auto simp add: InitializeOffline_extract_def Let_def
      split: prod.splits option.splits dest!: GetOfflineRomFS_trace)

lemmas offline_defs =
  InitializeOffline_def InitializeOffline_locals_def InitializeOffline_extract_def
  GetOfflineRomFS_def GetInputTLVData_def ParseRawValue_def le_nat_def
  as_DocumentKind_def resource_index_def RESOURCE_TYPES_def cache_dir_path_def
  document_file_path_def main_url_path_def GetMainURL_def string_find_def format_016X_def
  hex_digit_def emit_def Exists_def WebBrowser_new_def

lemmas sample_defs =
  sample_environment_def sample_archive_def sample_applet_def sample_fields_def
  sample_CreateDirectory_def sample_VfsRawCopyD_def sample_document_path
  sample_cache_root_def sample_cached_document_def

lemma sample_run_cached:
  "InitializeOffline (sample_environment tree)
     (sample_applet Offline (sample_fields 1) [sample_cached_document]) =
   Inr ((sample_applet Offline (sample_fields 1) [sample_cached_document])
          \<lparr>offline_cache_dir := sample_cache_root,
           offline_document := sample_cached_document @ ''?x=1'',
           trace := [Call_Exists sample_cached_document]\<rparr>)"
  by (simp add: offline_defs sample_defs Let_def)

text \<open>
  C3 (the cache check ignores the query string). \<^verbatim>\<open>GetMainURL\<close> returns a URL
  without \<^verbatim>\<open>?\<close> unchanged and otherwise what stands before the first \<^verbatim>\<open>?\<close>. The
  one existence test of \<^verbatim>\<open>InitializeOffline\<close> is made first, on the (sanitised)
  \<^verbatim>\<open>GetMainURL\<close> of the document path; when that file exists nothing else happens
  and host storage is unchanged, whether or not the path with its query string exists.
\<close>

theorem cache_check_ignores_query_string:
  assumes "InitializeOffline E s = Inr s'"
  shows "(CHR ''?'' \<notin> set url \<longrightarrow> GetMainURL url = url)
       \<and> (CHR ''?'' \<notin> set path \<longrightarrow> GetMainURL (path @ CHR ''?'' # query) = path)
       \<and> (\<exists>l. InitializeOffline_locals E s = Inr l \<and> offline_document s' = document_file_path E l)
       \<and> (\<exists>more. trace s' =
              trace s @ Call_Exists (SanitizePath E (GetMainURL (offline_document s'))) # more)
       \<and> (SanitizePath E (GetMainURL (offline_document s')) \<in> set (host_files s) \<longrightarrow>
            trace s' = trace s @ [Call_Exists (SanitizePath E (GetMainURL (offline_document s')))]
            \<and> host_files s' = host_files s)"
proof -
  from assms obtain l where l: "InitializeOffline_locals E s = Inr l"
    and s': "s' = InitializeOffline_extract E l
                  (s\<lparr>offline_cache_dir := cache_dir_path E l,
                     offline_document := document_file_path E l\<rparr>)"
    by (auto simp add: InitializeOffline_Inr_iff)
  have doc: "offline_document s' = document_file_path E l"
    by (simp add: s' InitializeOffline_extract_fields)
  have main: "SanitizePath E (GetMainURL (offline_document s')) = main_url_path E l"
    by (simp add: doc main_url_path_def)
  have starts: "\<exists>more. trace s' = trace s @ Call_Exists (main_url_path E l) # more"
    using extract_trace_starts [of E l "s\<lparr>offline_cache_dir := cache_dir_path E l,
                     offline_document := document_file_path E l\<rparr>"]
    by (simp add: s')
  have present: "trace s' = trace s @ [Call_Exists (main_url_path E l)] \<and> host_files s' = host_files s"
    if "main_url_path E l \<in> set (host_files s)"
    using that by (simp add: s' extract_when_present)
  show ?thesis
    unfolding main using l doc starts present
    by (auto simp add: GetMainURL_without_query GetMainURL_with_query)
qed

theorem cache_check_ignores_query_string_witness:
  "InitializeOffline (sample_environment [])
     (sample_applet Offline (sample_fields 1) [sample_cached_document]) =
   Inr ((sample_applet Offline (sample_fields 1) [sample_cached_document])
          \<lparr>offline_cache_dir := sample_cache_root,
           offline_document := sample_cached_document @ ''?x=1'',
           trace := [Call_Exists sample_cached_document]\<rparr>)
   \<and> CHR ''?'' \<notin> set ''index.html''
   \<and> GetMainURL (''index.html'' @ CHR ''?'' # ''x=1'') = ''index.html''
   \<and> GetMainURL ''index.html'' = ''index.html''
   \<and> sample_cached_document \<in> set [sample_cached_document]
   \<and> sample_cached_document @ ''?x=1'' \<notin> set [sample_cached_document]
   \<and> trace (state_of (InitializeOffline (sample_environment [])
                (sample_applet Offline (sample_fields 1) [sample_cached_document])))
       = [Call_Exists sample_cached_document]
   \<and> host_files (state_of (InitializeOffline (sample_environment [])
                (sample_applet Offline (sample_fields 1) [sample_cached_document])))
       = [sample_cached_document]"
proof -
  let ?E = "sample_environment []"
  let ?s = "sample_applet Offline (sample_fields 1) [sample_cached_document]"
  let ?s' = "?s\<lparr>offline_cache_dir := sample_cache_root,
           offline_document := sample_cached_document @ ''?x=1'',
           trace := [Call_Exists sample_cached_document]\<rparr>"
  have run: "InitializeOffline ?E ?s = Inr ?s'"
    by (rule sample_run_cached)
  have q: "CHR ''?'' \<notin> set ''index.html''" by simp
  have sc: "CHR ''?'' \<notin> set sample_cached_document"
    by (simp add: sample_cached_document_def)
  have sp: "SanitizePath ?E sample_cached_document = sample_cached_document"
    by (simp add: sample_environment_def sample_cached_document_def)
  note t = cache_check_ignores_query_string [OF run, of "''index.html''" "''index.html''" "''x=1''"]
  have main: "SanitizePath ?E (GetMainURL (offline_document ?s')) = sample_cached_document"
    using cache_check_ignores_query_string [OF run, of "[]" sample_cached_document "''x=1''"] sc sp
    by simp
  have there: "sample_cached_document \<in> set (host_files ?s)"
    by (simp add: sample_applet_def WebBrowser_new_def)
  have absent: "sample_cached_document @ ''?x=1'' \<notin> set [sample_cached_document]"
    by simp
  have st: "state_of (InitializeOffline ?E ?s) = ?s'"
    unfolding run by (simp add: state_of_def)
  have "trace ?s' = trace ?s @ [Call_Exists sample_cached_document] \<and> host_files ?s' = host_files ?s"
    using t there unfolding main by blast
  then have tr: "trace ?s' = [Call_Exists sample_cached_document]"
    and hf: "host_files ?s' = [sample_cached_document]"
    by (simp_all add: sample_applet_def WebBrowser_new_def)
  show ?thesis
    unfolding st using run q t tr hf absent by simp
qed

lemma InitializeOffline_locals_same_map:
  assumes "web_arg_input_tlv_map s' = web_arg_input_tlv_map s"
  shows "InitializeOffline_locals E s' = InitializeOffline_locals E s"
proof -
  have "GetInputTLVData s' = GetInputTLVData s"
    using assms by (simp add: GetInputTLVData_def fun_eq_iff)
  then show ?thesis
    by (simp only: InitializeOffline_locals_def)
qed

text \<open>
  C2 (idempotent extraction), as amended. When the main document (the document path
  without its query string) exists on host storage, \<^verbatim>\<open>InitializeOffline\<close> makes the
  existence test and returns: no lookup, no directory, no copy, host storage unchanged.
  So a second run is a no-op after every first run that left the main document on
  host storage.
\<close>

theorem extraction_skipped_when_main_document_exists:
  assumes "InitializeOffline E s = Inr s1"
  shows "(SanitizePath E (GetMainURL (offline_document s1)) \<in> set (host_files s) \<longrightarrow>
            (\<exists>cache document.
               s1 = s\<lparr>offline_cache_dir := cache, offline_document := document,
                       trace := trace s @
                         [Call_Exists (SanitizePath E (GetMainURL (offline_document s1)))]\<rparr>))
       \<and> (SanitizePath E (GetMainURL (offline_document s1)) \<in> set (host_files s1) \<longrightarrow>
            InitializeOffline E s1 =
              Inr (s1\<lparr>trace := trace s1 @
                         [Call_Exists (SanitizePath E (GetMainURL (offline_document s1)))]\<rparr>))"
proof -
  let ?paths = "\<lambda>l s. s\<lparr>offline_cache_dir := cache_dir_path E l,
                        offline_document := document_file_path E l\<rparr>"
  from assms obtain l where l: "InitializeOffline_locals E s = Inr l"
    and idx: "resource_index (document_kind l) < length RESOURCE_TYPES"
    and s1: "s1 = InitializeOffline_extract E l (?paths l s)"
    by (auto simp add: InitializeOffline_Inr_iff)
  have main: "SanitizePath E (GetMainURL (offline_document s1)) = main_url_path E l"
    by (simp add: s1 InitializeOffline_extract_fields main_url_path_def)
  have first: "s1 = s\<lparr>offline_cache_dir := cache_dir_path E l,
                       offline_document := document_file_path E l,
                       trace := trace s @ [Call_Exists (main_url_path E l)]\<rparr>"
    if "main_url_path E l \<in> set (host_files s)"
    using that by (simp add: s1 extract_when_present emit_def)
  have again: "InitializeOffline E s1 =
                 Inr (s1\<lparr>trace := trace s1 @ [Call_Exists (main_url_path E l)]\<rparr>)"
    if there: "main_url_path E l \<in> set (host_files s1)"
  proof -
    have "web_arg_input_tlv_map s1 = web_arg_input_tlv_map s"
      by (simp add: s1 InitializeOffline_extract_fields)
    then have "InitializeOffline_locals E s1 = InitializeOffline_locals E s"
      by (rule InitializeOffline_locals_same_map)
    then have "InitializeOffline_locals E s1 = Inr l"
      using l by simp
    moreover have "?paths l s1 = s1"
      by (simp add: s1 InitializeOffline_extract_fields)
    ultimately have "InitializeOffline E s1 = Inr (InitializeOffline_extract E l s1)"
      using idx by (simp add: InitializeOffline_ok)
    also have "InitializeOffline_extract E l s1 = emit (Call_Exists (main_url_path E l)) s1"
      using there by (rule extract_when_present)
    finally show ?thesis
      by (simp add: emit_def)
  qed
  show ?thesis
    unfolding main
  proof (intro conjI impI)
    assume "main_url_path E l \<in> set (host_files s)"
    from first [OF this] show "\<exists>cache document.
               s1 = s\<lparr>offline_cache_dir := cache, offline_document := document,
                       trace := trace s @ [Call_Exists (main_url_path E l)]\<rparr>"
      by (intro exI)
  next
    assume "main_url_path E l \<in> set (host_files s1)"
    from again [OF this] show "InitializeOffline E s1 =
              Inr (s1\<lparr>trace := trace s1 @ [Call_Exists (main_url_path E l)]\<rparr>)" .
  qed
qed

lemma sample_run_fresh:
  "InitializeOffline (sample_environment [''html-document/i.htm''])
     (sample_applet Offline (sample_fields 1) []) =
   Inr ((sample_applet Offline (sample_fields 1) [])
          \<lparr>offline_cache_dir := sample_cache_root,
           offline_document := sample_cached_document @ ''?x=1'',
           host_files := [sample_cache_root, sample_cached_document],
           trace :=
             [Call_Exists sample_cached_document,
              Call_ContentProvider_GetEntry 0x0100000000000001 HtmlDocument,
              Call_PatchRomFS 0x0100000000000001 HtmlDocument,
              Log Debug, Call_ExtractRomFS,
              Call_CreateDirectory sample_cache_root,
              Call_VfsRawCopyD sample_cache_root]\<rparr>)"
  by (simp add: offline_defs sample_defs Let_def)

theorem extraction_skipped_when_main_document_exists_witness:
  "InitializeOffline (sample_environment [''html-document/i.htm''])
     (sample_applet Offline (sample_fields 1) [sample_cached_document]) =
   Inr ((sample_applet Offline (sample_fields 1) [sample_cached_document])
          \<lparr>offline_cache_dir := sample_cache_root,
           offline_document := sample_cached_document @ ''?x=1'',
           trace := [Call_Exists sample_cached_document]\<rparr>)
   \<and> host_files (state_of (InitializeOffline (sample_environment [''html-document/i.htm''])
         (sample_applet Offline (sample_fields 1) []))) =
       [sample_cache_root, sample_cached_document]
   \<and> trace (state_of (InitializeOffline (sample_environment [''html-document/i.htm''])
         (state_of (InitializeOffline (sample_environment [''html-document/i.htm''])
            (sample_applet Offline (sample_fields 1) []))))) =
       [Call_Exists sample_cached_document,
        Call_ContentProvider_GetEntry 0x0100000000000001 HtmlDocument,
        Call_PatchRomFS 0x0100000000000001 HtmlDocument,
        Log Debug, Call_ExtractRomFS,
        Call_CreateDirectory sample_cache_root,
        Call_VfsRawCopyD sample_cache_root,
        Call_Exists sample_cached_document]
   \<and> host_files (state_of (InitializeOffline (sample_environment [''html-document/i.htm''])
         (state_of (InitializeOffline (sample_environment [''html-document/i.htm''])
            (sample_applet Offline (sample_fields 1) []))))) =
       [sample_cache_root, sample_cached_document]"
proof -
  let ?E = "sample_environment [''html-document/i.htm'']"
  let ?c = "sample_applet Offline (sample_fields 1) [sample_cached_document]"
  let ?s = "sample_applet Offline (sample_fields 1) []"
  let ?s1 = "?s\<lparr>offline_cache_dir := sample_cache_root,
           offline_document := sample_cached_document @ ''?x=1'',
           host_files := [sample_cache_root, sample_cached_document],
           trace :=
             [Call_Exists sample_cached_document,
              Call_ContentProvider_GetEntry 0x0100000000000001 HtmlDocument,
              Call_PatchRomFS 0x0100000000000001 HtmlDocument,
              Log Debug, Call_ExtractRomFS,
              Call_CreateDirectory sample_cache_root,
              Call_VfsRawCopyD sample_cache_root]\<rparr>"
  have cached: "InitializeOffline ?E ?c =
      Inr (?c\<lparr>offline_cache_dir := sample_cache_root,
           offline_document := sample_cached_document @ ''?x=1'',
           trace := [Call_Exists sample_cached_document]\<rparr>)"
    by (rule sample_run_cached)
  have run: "InitializeOffline ?E ?s = Inr ?s1"
    by (rule sample_run_fresh)
  have main: "SanitizePath ?E (GetMainURL (offline_document ?s1)) = sample_cached_document"
    by (simp add: sample_environment_def sample_cached_document_def GetMainURL_def
        string_find_def)
  have there: "sample_cached_document \<in> set (host_files ?s1)"
    by simp
  have again: "InitializeOffline ?E ?s1 =
      Inr (?s1\<lparr>trace := trace ?s1 @ [Call_Exists sample_cached_document]\<rparr>)"
    using extraction_skipped_when_main_document_exists [OF run] there
    unfolding main by blast
  have st1: "state_of (InitializeOffline ?E ?s) = ?s1"
    unfolding run by (simp add: state_of_def)
  have st2: "state_of (InitializeOffline ?E ?s1) =
      ?s1\<lparr>trace := trace ?s1 @ [Call_Exists sample_cached_document]\<rparr>"
    unfolding again by (simp add: state_of_def)
  let ?c1 = "?c\<lparr>offline_cache_dir := sample_cache_root,
           offline_document := sample_cached_document @ ''?x=1'',
           trace := [Call_Exists sample_cached_document]\<rparr>"
  have main_c: "SanitizePath ?E (GetMainURL (offline_document ?c1)) = sample_cached_document"
    by (simp add: sample_environment_def sample_cached_document_def GetMainURL_def
        string_find_def)
  have there_c: "sample_cached_document \<in> set (host_files ?c)"
    by (simp add: sample_applet_def WebBrowser_new_def)
  have "\<exists>cache document.
          ?c1 = ?c\<lparr>offline_cache_dir := cache, offline_document := document,
                     trace := trace ?c @ [Call_Exists sample_cached_document]\<rparr>"
    using extraction_skipped_when_main_document_exists [OF cached] there_c
    unfolding main_c by blast
  then obtain cache document where
    eq: "?c1 = ?c\<lparr>offline_cache_dir := cache, offline_document := document,
                     trace := trace ?c @ [Call_Exists sample_cached_document]\<rparr>"
    by blast
  have only_test: "trace ?c1 = trace ?c @ [Call_Exists sample_cached_document]"
    by (subst eq) simp
  have untouched: "host_files ?c1 = host_files ?c"
    by (subst eq) simp
  show ?thesis
    unfolding st1 st2 using cached only_test untouched by simp
qed

theorem second_run_extracts_again_counterexample:
  "InitializeOffline (sample_environment [''html-document/other.htm''])
     (sample_applet Offline (sample_fields 1) []) =
   Inr (state_of (InitializeOffline (sample_environment [''html-document/other.htm''])
          (sample_applet Offline (sample_fields 1) [])))
   \<and> trace (state_of (InitializeOffline (sample_environment [''html-document/other.htm''])
         (sample_applet Offline (sample_fields 1) []))) =
       [Call_Exists sample_cached_document,
        Call_ContentProvider_GetEntry 0x0100000000000001 HtmlDocument,
        Call_PatchRomFS 0x0100000000000001 HtmlDocument,
        Log Debug, Call_ExtractRomFS,
        Call_CreateDirectory sample_cache_root,
        Call_VfsRawCopyD sample_cache_root]
   \<and> trace (state_of (InitializeOffline (sample_environment [''html-document/other.htm''])
         (state_of (InitializeOffline (sample_environment [''html-document/other.htm''])
            (sample_applet Offline (sample_fields 1) []))))) =
       [Call_Exists sample_cached_document,
        Call_ContentProvider_GetEntry 0x0100000000000001 HtmlDocument,
        Call_PatchRomFS 0x0100000000000001 HtmlDocument,
        Log Debug, Call_ExtractRomFS,
        Call_CreateDirectory sample_cache_root,
        Call_VfsRawCopyD sample_cache_root,
        Call_Exists sample_cached_document,
        Call_ContentProvider_GetEntry 0x0100000000000001 HtmlDocument,
        Call_PatchRomFS 0x0100000000000001 HtmlDocument,
        Log Debug, Call_ExtractRomFS,
        Call_CreateDirectory sample_cache_root,
        Call_VfsRawCopyD sample_cache_root]"
proof -
  let ?E = "sample_environment [''html-document/other.htm'']"
  let ?s = "sample_applet Offline (sample_fields 1) []"
  let ?T = "[Call_Exists sample_cached_document,
        Call_ContentProvider_GetEntry 0x0100000000000001 HtmlDocument,
        Call_PatchRomFS 0x0100000000000001 HtmlDocument,
        Log Debug, Call_ExtractRomFS,
        Call_CreateDirectory sample_cache_root,
        Call_VfsRawCopyD sample_cache_root]"
  let ?other = "''/c/offline_web_applet_manual/0100000000000001/html-document/other.htm''"
  let ?s1 = "?s\<lparr>offline_cache_dir := sample_cache_root,
           offline_document := sample_cached_document @ ''?x=1'',
           host_files := [sample_cache_root, ?other],
           trace := ?T\<rparr>"
  have run1: "InitializeOffline ?E ?s = Inr ?s1"
    by (simp add: offline_defs sample_defs Let_def)
  have run2: "InitializeOffline ?E ?s1 =
      Inr (?s1\<lparr>host_files := [sample_cache_root, ?other, ?other], trace := ?T @ ?T\<rparr>)"
    by (simp add: offline_defs sample_defs Let_def)
  have st1: "state_of (InitializeOffline ?E ?s) = ?s1"
    unfolding run1 by (simp add: state_of_def)
  have st2: "state_of (InitializeOffline ?E ?s1) =
      ?s1\<lparr>host_files := [sample_cache_root, ?other, ?other], trace := ?T @ ?T\<rparr>"
    unfolding run2 by (simp add: state_of_def)
  show ?thesis
    unfolding st1 st2 using run1 by simp
qed

lemma extract_when_absent_found:
  assumes "main_url_path E l \<notin> set (host_files s)"
    and "GetOfflineRomFS E (title_id l) (nca_type l) (emit (Call_Exists (main_url_path E l)) s)
           = (Some romfs, s2)"
  shows "InitializeOffline_extract E l s =
           s2\<lparr>host_files :=
                 VfsRawCopyD E (CreateDirectory E (host_files s2) (offline_cache_dir s2))
                   (ExtractRomFS E (Some romfs)) (offline_cache_dir s2),
               trace := trace s2 @
                 [Log Debug, Call_ExtractRomFS, Call_CreateDirectory (offline_cache_dir s2),
                  Call_VfsRawCopyD (offline_cache_dir s2)]\<rparr>"
  using assms by (simp add: InitializeOffline_extract_def Let_def Exists_def emit_def)

lemma extract_when_absent_missing:
  assumes "main_url_path E l \<notin> set (host_files s)"
    and "GetOfflineRomFS E (title_id l) (nca_type l) (emit (Call_Exists (main_url_path E l)) s)
           = (None, s2)"
  shows "InitializeOffline_extract E l s = emit (Log Error) s2"
  using assms by (simp add: InitializeOffline_extract_def Let_def Exists_def)

lemma GetOfflineRomFS_synthesized:
  assumes "SystemNAND_GetEntry E owner Data = None"
  shows "GetOfflineRomFS E owner Data s =
           (SynthesizeSystemArchive E owner,
            s\<lparr>trace := trace s @
                 [Call_SystemNAND_GetEntry owner Data, Log Error,
                  Call_SynthesizeSystemArchive owner]\<rparr>)"
  using assms by (simp add: GetOfflineRomFS_def Let_def emit_def)

lemma GetOfflineRomFS_not_found:
  assumes "kind \<noteq> Data" and "ContentProvider_GetEntry E owner kind = None"
  shows "GetOfflineRomFS E owner kind s =
           (None, s\<lparr>trace := trace s @ [Call_ContentProvider_GetEntry owner kind, Log Error]\<rparr>)"
  using assms by (simp add: GetOfflineRomFS_def Let_def emit_def)

text \<open>
  C6 (archive resolution split). Let the main document be absent from host storage.
  For system data that the system NAND does not hold, \<^verbatim>\<open>GetOfflineRomFS\<close> returns
  the built-in archive synthesised for the title, and when there is one the extraction
  proceeds: the tree is extracted, the cache directory created and the tree copied
  into it. For any other kind that the content provider does not hold, the result is a
  null handle: two errors are logged and \<^verbatim>\<open>InitializeOffline\<close> returns with no
  directory created and host storage unchanged.
\<close>

theorem archive_resolution_split:
  assumes "InitializeOffline_locals E s = Inr l"
    and "resource_index (document_kind l) < length RESOURCE_TYPES"
    and "main_url_path E l \<notin> set (host_files s)"
  shows "(nca_type l = Data \<and> SystemNAND_GetEntry E (title_id l) Data = None
          \<and> SynthesizeSystemArchive E (title_id l) = Some romfs \<longrightarrow>
            fst (GetOfflineRomFS E (title_id l) (nca_type l) s) = Some romfs
            \<and> InitializeOffline E s =
                Inr (s\<lparr>offline_cache_dir := cache_dir_path E l,
                       offline_document := document_file_path E l,
                       host_files :=
                         VfsRawCopyD E (CreateDirectory E (host_files s) (cache_dir_path E l))
                           (ExtractRomFS E (Some romfs)) (cache_dir_path E l),
                       trace := trace s @
                         [Call_Exists (main_url_path E l),
                          Call_SystemNAND_GetEntry (title_id l) Data, Log Error,
                          Call_SynthesizeSystemArchive (title_id l),
                          Log Debug, Call_ExtractRomFS,
                          Call_CreateDirectory (cache_dir_path E l),
                          Call_VfsRawCopyD (cache_dir_path E l)]\<rparr>))
       \<and> (nca_type l \<noteq> Data \<and> ContentProvider_GetEntry E (title_id l) (nca_type l) = None \<longrightarrow>
            fst (GetOfflineRomFS E (title_id l) (nca_type l) s) = None
            \<and> InitializeOffline E s =
                Inr (s\<lparr>offline_cache_dir := cache_dir_path E l,
                       offline_document := document_file_path E l,
                       trace := trace s @
                         [Call_Exists (main_url_path E l),
                          Call_ContentProvider_GetEntry (title_id l) (nca_type l),
                          Log Error, Log Error]\<rparr>))"
proof (intro conjI impI)
  let ?s0 = "s\<lparr>offline_cache_dir := cache_dir_path E l,
               offline_document := document_file_path E l\<rparr>"
  have init: "InitializeOffline E s = Inr (InitializeOffline_extract E l ?s0)"
    using assms(1,2) by (rule InitializeOffline_ok)
  have absent: "main_url_path E l \<notin> set (host_files ?s0)"
    using assms(3) by simp
  {
    assume a: "nca_type l = Data \<and> SystemNAND_GetEntry E (title_id l) Data = None
          \<and> SynthesizeSystemArchive E (title_id l) = Some romfs"
    then show "fst (GetOfflineRomFS E (title_id l) (nca_type l) s) = Some romfs"
      by (simp add: GetOfflineRomFS_synthesized)
    have "GetOfflineRomFS E (title_id l) (nca_type l)
            (emit (Call_Exists (main_url_path E l)) ?s0) =
          (Some romfs,
           (emit (Call_Exists (main_url_path E l)) ?s0)
             \<lparr>trace := trace (emit (Call_Exists (main_url_path E l)) ?s0) @
                 [Call_SystemNAND_GetEntry (title_id l) Data, Log Error,
                  Call_SynthesizeSystemArchive (title_id l)]\<rparr>)"
      using a by (simp add: GetOfflineRomFS_synthesized)
    from extract_when_absent_found [OF absent this]
    show "InitializeOffline E s =
                Inr (s\<lparr>offline_cache_dir := cache_dir_path E l,
                       offline_document := document_file_path E l,
                       host_files :=
                         VfsRawCopyD E (CreateDirectory E (host_files s) (cache_dir_path E l))
                           (ExtractRomFS E (Some romfs)) (cache_dir_path E l),
                       trace := trace s @
                         [Call_Exists (main_url_path E l),
                          Call_SystemNAND_GetEntry (title_id l) Data, Log Error,
                          Call_SynthesizeSystemArchive (title_id l),
                          Log Debug, Call_ExtractRomFS,
                          Call_CreateDirectory (cache_dir_path E l),
                          Call_VfsRawCopyD (cache_dir_path E l)]\<rparr>)"
      unfolding init by (simp add: emit_def)
  }
  {
    assume a: "nca_type l \<noteq> Data \<and> ContentProvider_GetEntry E (title_id l) (nca_type l) = None"
    then show "fst (GetOfflineRomFS E (title_id l) (nca_type l) s) = None"
      by (simp add: GetOfflineRomFS_not_found)
    have "GetOfflineRomFS E (title_id l) (nca_type l)
            (emit (Call_Exists (main_url_path E l)) ?s0) =
          (None,
           (emit (Call_Exists (main_url_path E l)) ?s0)
             \<lparr>trace := trace (emit (Call_Exists (main_url_path E l)) ?s0) @
                 [Call_ContentProvider_GetEntry (title_id l) (nca_type l), Log Error]\<rparr>)"
      using a by (simp add: GetOfflineRomFS_not_found)
    from extract_when_absent_missing [OF absent this]
    show "InitializeOffline E s =
                Inr (s\<lparr>offline_cache_dir := cache_dir_path E l,
                       offline_document := document_file_path E l,
                       trace := trace s @
                         [Call_Exists (main_url_path E l),
                          Call_ContentProvider_GetEntry (title_id l) (nca_type l),
                          Log Error, Log Error]\<rparr>)"
      unfolding init by (simp add: emit_def)
  }
qed

theorem archive_resolution_split_witness:
  "SystemNAND_GetEntry (sample_environment []) 0x0100000000000002 Data = None
   \<and> SynthesizeSystemArchive (sample_environment []) 0x0100000000000002 = Some [''page.html'']
   \<and> ContentProvider_GetEntry (sample_environment []) 0x0100000000000002 LegalInformation = None
   \<and> trace (state_of (InitializeOffline (sample_environment [])
         (sample_applet Offline (sample_fields 3) []))) =
       [Call_Exists ''/c/offline_web_applet_system_data/0100000000000002/i.htm'',
        Call_SystemNAND_GetEntry 0x0100000000000002 Data, Log Error,
        Call_SynthesizeSystemArchive 0x0100000000000002,
        Log Debug, Call_ExtractRomFS,
        Call_CreateDirectory ''/c/offline_web_applet_system_data/0100000000000002'',
        Call_VfsRawCopyD ''/c/offline_web_applet_system_data/0100000000000002'']
   \<and> host_files (state_of (InitializeOffline (sample_environment [])
         (sample_applet Offline (sample_fields 3) []))) =
       [''/c/offline_web_applet_system_data/0100000000000002'',
        ''/c/offline_web_applet_system_data/0100000000000002/page.html'']
   \<and> trace (state_of (InitializeOffline (sample_environment [])
         (sample_applet Offline (sample_fields 2) []))) =
       [Call_Exists ''/c/offline_web_applet_legal_information/0100000000000002/i.htm'',
        Call_ContentProvider_GetEntry 0x0100000000000002 LegalInformation,
        Log Error, Log Error]
   \<and> host_files (state_of (InitializeOffline (sample_environment [])
         (sample_applet Offline (sample_fields 2) []))) = []"
proof -
  let ?E = "sample_environment []"
  let ?s3 = "sample_applet Offline (sample_fields 3) []"
  let ?s2 = "sample_applet Offline (sample_fields 2) []"
  let ?l3 = "\<lparr> document_path = ''i.htm?x=1'', document_kind = SystemDataPage,
               title_id = 0x0100000000000002, nca_type = Data, additional_paths = [] \<rparr>"
  let ?l2 = "\<lparr> document_path = ''i.htm?x=1'', document_kind = ApplicationLegalInformation,
               title_id = 0x0100000000000002, nca_type = LegalInformation,
               additional_paths = [] \<rparr>"
  have l3: "InitializeOffline_locals ?E ?s3 = Inr ?l3"
    and l2: "InitializeOffline_locals ?E ?s2 = Inr ?l2"
    by (simp_all add: offline_defs sample_defs Let_def)
  have i3: "resource_index (document_kind ?l3) < length RESOURCE_TYPES"
    and i2: "resource_index (document_kind ?l2) < length RESOURCE_TYPES"
    by (simp_all add: resource_index_def RESOURCE_TYPES_def)
  have c3: "cache_dir_path ?E ?l3 = ''/c/offline_web_applet_system_data/0100000000000002''"
    and c2: "cache_dir_path ?E ?l2 = ''/c/offline_web_applet_legal_information/0100000000000002''"
    by (simp_all add: offline_defs sample_defs)
  have m3: "main_url_path ?E ?l3 = ''/c/offline_web_applet_system_data/0100000000000002/i.htm''"
    and m2: "main_url_path ?E ?l2 =
               ''/c/offline_web_applet_legal_information/0100000000000002/i.htm''"
    by (simp_all add: offline_defs sample_defs)
  have a3: "main_url_path ?E ?l3 \<notin> set (host_files ?s3)"
    and a2: "main_url_path ?E ?l2 \<notin> set (host_files ?s2)"
    by (simp_all add: sample_applet_def WebBrowser_new_def)
  have nand: "SystemNAND_GetEntry ?E 0x0100000000000002 Data = None"
    and synth: "SynthesizeSystemArchive ?E 0x0100000000000002 = Some [''page.html'']"
    and prov: "ContentProvider_GetEntry ?E 0x0100000000000002 LegalInformation = None"
    by (simp_all add: sample_environment_def sample_archive_def)
  have r3: "InitializeOffline ?E ?s3 =
      Inr (?s3\<lparr>offline_cache_dir := cache_dir_path ?E ?l3,
                offline_document := document_file_path ?E ?l3,
                host_files :=
                  VfsRawCopyD ?E (CreateDirectory ?E (host_files ?s3) (cache_dir_path ?E ?l3))
                    (ExtractRomFS ?E (Some [''page.html''])) (cache_dir_path ?E ?l3),
                trace := trace ?s3 @
                  [Call_Exists (main_url_path ?E ?l3),
                   Call_SystemNAND_GetEntry (title_id ?l3) Data, Log Error,
                   Call_SynthesizeSystemArchive (title_id ?l3),
                   Log Debug, Call_ExtractRomFS,
                   Call_CreateDirectory (cache_dir_path ?E ?l3),
                   Call_VfsRawCopyD (cache_dir_path ?E ?l3)]\<rparr>)"
    using archive_resolution_split [OF l3 i3 a3, of "[''page.html'']"] nand synth by simp
  have r2: "InitializeOffline ?E ?s2 =
      Inr (?s2\<lparr>offline_cache_dir := cache_dir_path ?E ?l2,
                offline_document := document_file_path ?E ?l2,
                trace := trace ?s2 @
                  [Call_Exists (main_url_path ?E ?l2),
                   Call_ContentProvider_GetEntry (title_id ?l2) (nca_type ?l2),
                   Log Error, Log Error]\<rparr>)"
    using archive_resolution_split [OF l2 i2 a2, of "[]"] prov by simp
  have t3: "trace (state_of (InitializeOffline ?E ?s3)) =
       [Call_Exists ''/c/offline_web_applet_system_data/0100000000000002/i.htm'',
        Call_SystemNAND_GetEntry 0x0100000000000002 Data, Log Error,
        Call_SynthesizeSystemArchive 0x0100000000000002,
        Log Debug, Call_ExtractRomFS,
        Call_CreateDirectory ''/c/offline_web_applet_system_data/0100000000000002'',
        Call_VfsRawCopyD ''/c/offline_web_applet_system_data/0100000000000002'']"
    unfolding r3 c3 m3 by (simp add: state_of_def sample_applet_def WebBrowser_new_def)
  have h3: "host_files (state_of (InitializeOffline ?E ?s3)) =
       [''/c/offline_web_applet_system_data/0100000000000002'',
        ''/c/offline_web_applet_system_data/0100000000000002/page.html'']"
    unfolding r3 c3 m3
    by (simp add: state_of_def sample_applet_def WebBrowser_new_def sample_environment_def
        sample_CreateDirectory_def sample_VfsRawCopyD_def)
  have t2: "trace (state_of (InitializeOffline ?E ?s2)) =
       [Call_Exists ''/c/offline_web_applet_legal_information/0100000000000002/i.htm'',
        Call_ContentProvider_GetEntry 0x0100000000000002 LegalInformation,
        Log Error, Log Error]"
    unfolding r2 c2 m2 by (simp add: state_of_def sample_applet_def WebBrowser_new_def)
  have h2: "host_files (state_of (InitializeOffline ?E ?s2)) = []"
    unfolding r2 by (simp add: state_of_def sample_applet_def WebBrowser_new_def)
  show ?thesis
    using nand synth prov t3 h3 t2 h2 by simp
qed

end
